theory Spec2Isabelle
  imports Complex_Main "HOL-Library.Word" "HOL-Library.Signed_Division" "HOL-Library.AList"
begin

section \<open>Go values shared by both adapters\<close>

text \<open>
  The repository layer of \<^verbatim>\<open>libraries\<close> is embedded function by function. Go's
  \<^verbatim>\<open>int\<close> and \<^verbatim>\<open>int64\<close> are 64-bit two's-complement words (the binaries are
  built for 64-bit Linux); \<open>+\<close>, \<open>-\<close> and \<open>*\<close> wrap around, comparison is signed,
  and \<^verbatim>\<open>/\<close> and \<^verbatim>\<open>%\<close> truncate towards zero.
\<close>

type_synonym go_int = "64 word"
type_synonym int64 = "64 word"

definition go_quo :: "go_int \<Rightarrow> go_int \<Rightarrow> go_int" where
  "go_quo a b = word_of_int (sint a sdiv sint b)"

definition go_rem :: "go_int \<Rightarrow> go_int \<Rightarrow> go_int" where
  "go_rem a b = word_of_int (sint a smod sint b)"

text \<open>
  Error values. A \<open>store_error\<close> is an error value produced outside the package, by the
  ORM, the driver or the store: the two sentinels the adapters compare against
  (\<^verbatim>\<open>gorm.ErrRecordNotFound\<close>, \<^verbatim>\<open>mongo.ErrNoDocuments\<close>) and any other failure.
  An \<open>error\<close> is what a method of the package returns: the taxonomy
  (\<^verbatim>\<open>ErrRecordNotFound\<close>, \<^verbatim>\<open>ErrInvalidID\<close>, \<^verbatim>\<open>ErrDuplicateRecord\<close>), an error
  built by \<^verbatim>\<open>fmt.Errorf\<close>, or a store error handed on unchanged. \<open>Panic\<close> is a
  run-time panic, which is not a returned value but ends the call.
  A Go result of type \<^verbatim>\<open>error\<close> is an \<open>error option\<close>, \<open>None\<close> being \<^verbatim>\<open>nil\<close>.
\<close>

datatype store_error =
    Gorm_ErrRecordNotFound
  | Mongo_ErrNoDocuments
  | Failure string

datatype error =
    ErrRecordNotFound
  | ErrInvalidID
  | ErrDuplicateRecord
  | Errorf string
  | StoreError store_error
  | Panic string

record PaginationMeta =
  Page :: go_int
  PerPage :: go_int
  Total :: int64
  TotalPages :: go_int
  HasNext :: bool
  HasPrev :: bool

section \<open>Relational adapter: pagination\<close>

text \<open>
  \<^verbatim>\<open>GormPaginatedResult\<close>. The \<^verbatim>\<open>*gorm.DB\<close> statement held by the query is
  opaque to the adapter, so the two ORM calls that \<^verbatim>\<open>Execute\<close> makes on it are
  parameters: \<open>cnt q\<close> is the outcome of \<^verbatim>\<open>db.Model(&model).Count(&total)\<close> and
  \<open>fnd q l off\<close> the outcome of \<^verbatim>\<open>db.Limit(l).Offset(off).Find(&results)\<close>.
  \<^verbatim>\<open>Execute\<close> assigns to \<^verbatim>\<open>p.page\<close> and \<^verbatim>\<open>p.perPage\<close>, so the receiver is returned
  with the result. The conversions \<^verbatim>\<open>int(total)\<close> and \<^verbatim>\<open>int64(...)\<close> are between types of the
  same width. The divisor of \<^verbatim>\<open>/\<close> and \<^verbatim>\<open>%\<close> is at least 1 where they are reached.
\<close>

record 'q GormPaginatedResult =
  gp_query :: 'q
  gp_page :: go_int
  gp_perPage :: go_int

definition GormQuery_Paginate :: "'q \<Rightarrow> go_int \<Rightarrow> go_int \<Rightarrow> 'q GormPaginatedResult" where
  "GormQuery_Paginate q page perPage = \<lparr>gp_query = q, gp_page = page, gp_perPage = perPage\<rparr>"

definition GormPaginatedResult_Execute ::
  "('q \<Rightarrow> store_error + int64) \<Rightarrow> ('q \<Rightarrow> go_int \<Rightarrow> go_int \<Rightarrow> store_error + 'a list) \<Rightarrow>
   'q GormPaginatedResult \<Rightarrow> 'q GormPaginatedResult \<times> (error + PaginationMeta \<times> 'a list)" where
  "GormPaginatedResult_Execute cnt fnd p =
     (case cnt (gp_query p) of
        Inl err \<Rightarrow> (p, Inl (StoreError err))
      | Inr n \<Rightarrow>
          let p1 = (if gp_page p <s 1 then p\<lparr>gp_page := 1\<rparr> else p);
              p2 = (if gp_perPage p1 <s 1 then p1\<lparr>gp_perPage := 10\<rparr> else p1);
              offset = (gp_page p2 - 1) * gp_perPage p2;
              totalPages = go_quo n (gp_perPage p2);
              totalPages = (if 0 <s go_rem n (gp_perPage p2) then totalPages + 1 else totalPages)
          in (case fnd (gp_query p2) (gp_perPage p2) offset of
                Inl err \<Rightarrow> (p2, Inl (StoreError err))
              | Inr results \<Rightarrow>
                  (p2, Inr (\<lparr>Page = gp_page p2, PerPage = gp_perPage p2, Total = n,
                             TotalPages = totalPages,
                             HasNext = (gp_page p2 <s totalPages),
                             HasPrev = (1 <s gp_page p2)\<rparr>, results))))"

section \<open>Document adapter: values, filters and the query builder\<close>

text \<open>
  A Go value of interface type \<^verbatim>\<open>any\<close>, as far as the adapters inspect it: its dynamic
  type is the constructor. \<open>BDoc\<close> is a \<^verbatim>\<open>bson.M\<close> (\<^verbatim>\<open>map[string]any\<close>), \<open>BDocs\<close> a
  \<^verbatim>\<open>[]bson.M\<close> and \<open>BArr\<close> a \<^verbatim>\<open>[]any\<close>; the type assertion
  \<^verbatim>\<open>x.([]bson.M)\<close> succeeds on \<open>BDocs\<close> only. \<open>BInt\<close> is a Go \<^verbatim>\<open>int\<close>, which a
  caller may put into a filter or a field map; a document that the driver has decoded
  into a \<^verbatim>\<open>bson.M\<close> holds its integers as \<^verbatim>\<open>int32\<close> or \<^verbatim>\<open>int64\<close>, \<open>BInt32\<close> or
  \<open>BInt64\<close>, and never as \<^verbatim>\<open>int\<close>.

  A Go map is an association list with distinct keys: \<^verbatim>\<open>m[k] = v\<close> is
  \<^const>\<open>AList.update\<close> (replace the entry, or add one), \<^verbatim>\<open>m[k]\<close> is \<^const>\<open>map_of\<close>,
  \<^verbatim>\<open>len(m) > 0\<close> is \<open>m \<noteq> []\<close>. Go leaves the iteration order open; the list keeps the
  order of insertion. A map variable may be \<^verbatim>\<open>nil\<close>: it reads as the empty map, and
  assigning to an entry of it panics. Such a variable is a \<open>bdoc option\<close>.
\<close>

datatype any =
    BNull
  | BBool bool
  | BStr string
  | BInt go_int
  | BInt32 "32 word"
  | BInt64 int64
  | BDateTime int64
  | BObjectID "8 word list"
  | BArr "any list"
  | BDoc "(string \<times> any) list"
  | BDocs "(string \<times> any) list list"

type_synonym bdoc = "(string \<times> any) list"

text \<open>\<^verbatim>\<open>m[k] = v\<close> on a map variable that may be \<^verbatim>\<open>nil\<close>.\<close>

definition map_assign :: "bdoc option \<Rightarrow> string \<Rightarrow> any \<Rightarrow> error + bdoc" where
  "map_assign m k v =
     (case m of
        None \<Rightarrow> Inl (Panic ''assignment to entry in nil map'')
      | Some d \<Rightarrow> Inr (AList.update k v d))"

text \<open>\<^verbatim>\<open>m[k]\<close> with the comma-ok form, on a map that may be \<^verbatim>\<open>nil\<close>.\<close>

definition map_get :: "bdoc option \<Rightarrow> string \<Rightarrow> any option" where
  "map_get m k = (case m of None \<Rightarrow> None | Some d \<Rightarrow> map_of d k)"

text \<open>
  \<^verbatim>\<open>MongoQuery\<close>. The collection handle is the store, passed separately to the terminal
  methods; the \<^verbatim>\<open>model\<close> field is never read. \<^verbatim>\<open>sort\<close> is a \<^verbatim>\<open>bson.D\<close>, an ordered
  list of key and direction.
\<close>

record MongoQuery =
  filter_q :: "bdoc option"
  sort_q :: "(string \<times> go_int) list"
  limit_q :: int64
  skip_q :: int64
  projection_q :: "bdoc option"

text \<open>The options handed to the driver's \<^verbatim>\<open>Find\<close>; an option that was not set is \<open>None\<close>.\<close>

record FindOptions =
  Sort :: "(string \<times> go_int) list option"
  Limit :: "int64 option"
  Skip :: "int64 option"
  Projection :: "bdoc option"

text \<open>
  \<^verbatim>\<open>MongoQuery.Find\<close>. \<open>drv f opts\<close> is the outcome of the driver's
  \<^verbatim>\<open>collection.Find(ctx, f, opts)\<close> followed by \<^verbatim>\<open>cursor.All\<close>.
\<close>

definition MongoQuery_Find ::
  "(bdoc option \<Rightarrow> FindOptions \<Rightarrow> store_error + 'a list) \<Rightarrow> MongoQuery \<Rightarrow> error + 'a list" where
  "MongoQuery_Find drv q =
     (let opts = \<lparr>Sort = None, Limit = None, Skip = None, Projection = None\<rparr>;
          opts = (if length (sort_q q) > 0 then opts\<lparr>Sort := Some (sort_q q)\<rparr> else opts);
          opts = (if 0 <s limit_q q then opts\<lparr>Limit := Some (limit_q q)\<rparr> else opts);
          opts = (if 0 <s skip_q q then opts\<lparr>Skip := Some (skip_q q)\<rparr> else opts);
          opts = (if projection_q q \<noteq> None then opts\<lparr>Projection := projection_q q\<rparr> else opts)
      in (case drv (filter_q q) opts of
            Inl err \<Rightarrow> Inl (StoreError err)
          | Inr results \<Rightarrow> Inr results))"

section \<open>Document adapter: building the filter\<close>

text \<open>
  Every query-entry method of \<^verbatim>\<open>MongoRepository\<close> returns a \<^verbatim>\<open>MongoQuery\<close> whose
  other fields hold Go's zero values; \<open>new_MongoQuery f\<close> is that literal with filter \<open>f\<close>.
  \<^verbatim>\<open>WhereRaw\<close> takes the caller's map as it is, which may be \<^verbatim>\<open>nil\<close>.
\<close>

definition new_MongoQuery :: "bdoc \<Rightarrow> MongoQuery" where
  "new_MongoQuery f = \<lparr>filter_q = Some f, sort_q = [], limit_q = 0, skip_q = 0, projection_q = None\<rparr>"

definition MongoRepository_Where :: "string \<Rightarrow> any \<Rightarrow> MongoQuery" where
  "MongoRepository_Where field v = new_MongoQuery [(field, v)]"

definition MongoRepository_WhereRaw :: "bdoc option \<Rightarrow> MongoQuery" where
  "MongoRepository_WhereRaw f = \<lparr>filter_q = f, sort_q = [], limit_q = 0, skip_q = 0, projection_q = None\<rparr>"

text \<open>
  The chain methods assign into \<^verbatim>\<open>q.filter\<close> and return the receiver; on a \<^verbatim>\<open>nil\<close>
  filter the assignment panics.
\<close>

definition MongoQuery_Where :: "string \<Rightarrow> any \<Rightarrow> MongoQuery \<Rightarrow> error + MongoQuery" where
  "MongoQuery_Where field v q =
     (case map_assign (filter_q q) field v of
        Inl e \<Rightarrow> Inl e
      | Inr f \<Rightarrow> Inr (q\<lparr>filter_q := Some f\<rparr>))"

definition MongoQuery_OrWhere :: "string \<Rightarrow> any \<Rightarrow> MongoQuery \<Rightarrow> error + MongoQuery" where
  "MongoQuery_OrWhere field v q =
     (let q1 = (case filter_q q of
                  None \<Rightarrow> q
                | Some f \<Rightarrow>
                    if map_of f ''$or'' = None
                    then (if length f > 0
                          then q\<lparr>filter_q := Some [(''$and'', BDocs [f])]\<rparr>
                          else q)
                    else q);
          orConditions = (case map_get (filter_q q1) ''$or'' of
                            Some (BDocs ds) \<Rightarrow> ds
                          | _ \<Rightarrow> []);
          orConditions = orConditions @ [[(field, v)]]
      in case map_assign (filter_q q1) ''$or'' (BDocs orConditions) of
           Inl e \<Rightarrow> Inl e
         | Inr f \<Rightarrow> Inr (q1\<lparr>filter_q := Some f\<rparr>))"

definition MongoQuery_OrQuery :: "bdoc list \<Rightarrow> MongoQuery \<Rightarrow> error + MongoQuery" where
  "MongoQuery_OrQuery queries q =
     (if length queries = 0 then Inr q
      else
        let (queries, q1) =
              (case filter_q q of
                 None \<Rightarrow> (queries, q)
               | Some f \<Rightarrow>
                   if length f > 0 then (f # queries, q\<lparr>filter_q := Some []\<rparr>)
                   else (queries, q))
        in case map_assign (filter_q q1) ''$or'' (BDocs queries) of
             Inl e \<Rightarrow> Inl e
           | Inr f \<Rightarrow> Inr (q1\<lparr>filter_q := Some f\<rparr>))"


section \<open>Document adapter: operators and like-patterns\<close>

text \<open>
  \<^verbatim>\<open>strings.ReplaceAll(s, old, new)\<close> for a one-byte \<open>old\<close>, which is how both callers use
  it: every occurrence of the byte is replaced, left to right.
  \<^verbatim>\<open>fmt.Sprintf("%v", value)\<close> is the string itself when \<open>value\<close> is a string; the
  formatting of any other value is the parameter \<open>fmtv\<close>.
\<close>

definition ReplaceAll :: "string \<Rightarrow> char \<Rightarrow> string \<Rightarrow> string" where
  "ReplaceAll s old new = concat (map (\<lambda>c. if c = old then new else [c]) s)"

definition Sprintf_v :: "(any \<Rightarrow> string) \<Rightarrow> any \<Rightarrow> string" where
  "Sprintf_v fmtv v = (case v of BStr s \<Rightarrow> s | _ \<Rightarrow> fmtv v)"

definition toBSONFilter :: "(any \<Rightarrow> string) \<Rightarrow> string \<Rightarrow> string \<Rightarrow> any \<Rightarrow> bdoc" where
  "toBSONFilter fmtv field operator v =
     (if operator = ''='' \<or> operator = ''=='' then [(field, v)]
      else if operator = ''>'' then [(field, BDoc [(''$gt'', v)])]
      else if operator = ''>='' then [(field, BDoc [(''$gte'', v)])]
      else if operator = ''<'' then [(field, BDoc [(''$lt'', v)])]
      else if operator = ''<='' then [(field, BDoc [(''$lte'', v)])]
      else if operator = ''!='' \<or> operator = ''<>'' then [(field, BDoc [(''$ne'', v)])]
      else if operator = ''LIKE'' then
        (let pattern = ReplaceAll (Sprintf_v fmtv v) CHR ''%'' ''.*''
         in [(field, BDoc [(''$regex'', BStr pattern), (''$options'', BStr ''i'')])])
      else if operator = ''NOT LIKE'' then
        (let pattern = ReplaceAll (Sprintf_v fmtv v) CHR ''%'' ''.*''
         in [(field, BDoc [(''$not'', BDoc [(''$regex'', BStr pattern), (''$options'', BStr ''i'')])])])
      else if operator = ''IN'' then [(field, BDoc [(''$in'', v)])]
      else if operator = ''NOT IN'' then [(field, BDoc [(''$nin'', v)])]
      else [(field, v)])"

text \<open>The loop of \<^verbatim>\<open>MongoQuery.WhereOperator\<close> that copies the new conditions into \<^verbatim>\<open>q.filter\<close>.\<close>

fun merge_filter :: "bdoc \<Rightarrow> bdoc option \<Rightarrow> error + bdoc option" where
  "merge_filter [] m = Inr m"
| "merge_filter ((k, v) # kvs) m =
     (case map_assign m k v of
        Inl e \<Rightarrow> Inl e
      | Inr m' \<Rightarrow> merge_filter kvs (Some m'))"

definition MongoRepository_WhereOperator :: "(any \<Rightarrow> string) \<Rightarrow> string \<Rightarrow> string \<Rightarrow> any \<Rightarrow> MongoQuery" where
  "MongoRepository_WhereOperator fmtv field operator v = new_MongoQuery (toBSONFilter fmtv field operator v)"

definition MongoQuery_WhereOperator ::
  "(any \<Rightarrow> string) \<Rightarrow> string \<Rightarrow> string \<Rightarrow> any \<Rightarrow> MongoQuery \<Rightarrow> error + MongoQuery" where
  "MongoQuery_WhereOperator fmtv field operator v q =
     (case merge_filter (toBSONFilter fmtv field operator v) (filter_q q) of
        Inl e \<Rightarrow> Inl e
      | Inr m \<Rightarrow> Inr (q\<lparr>filter_q := m\<rparr>))"

definition MongoQuery_WhereLike :: "string \<Rightarrow> string \<Rightarrow> MongoQuery \<Rightarrow> error + MongoQuery" where
  "MongoQuery_WhereLike field pattern q =
     (let regexPattern = ReplaceAll pattern CHR ''%'' ''.*'';
          regexPattern = ReplaceAll regexPattern CHR ''_'' ''.''
      in case map_assign (filter_q q) field
                (BDoc [(''$regex'', BStr regexPattern), (''$options'', BStr ''i'')]) of
           Inl e \<Rightarrow> Inl e
         | Inr f \<Rightarrow> Inr (q\<lparr>filter_q := Some f\<rparr>))"

section \<open>Query-level update on both adapters\<close>

text \<open>
  \<^verbatim>\<open>MongoQuery.Update\<close>. \<open>data\<close> is the caller's map, which the method assigns into, so
  it is returned with the result; \<open>now\<close> is the time read from the clock, in milliseconds;
  \<open>updateMany f u\<close> is the outcome of \<^verbatim>\<open>collection.UpdateMany(ctx, f, u)\<close>.
  \<^verbatim>\<open>GormQuery.Update\<close> hands the map to the ORM: \<open>updates q data\<close> is the outcome of
  \<^verbatim>\<open>db.Model(&model).Updates(data)\<close>.
\<close>

definition MongoQuery_Update ::
  "(bdoc option \<Rightarrow> bdoc \<Rightarrow> store_error option) \<Rightarrow> int64 \<Rightarrow> bdoc option \<Rightarrow> MongoQuery \<Rightarrow>
   error option \<times> bdoc option" where
  "MongoQuery_Update updateMany now data q =
     (case map_assign data ''updated_at'' (BDateTime now) of
        Inl e \<Rightarrow> (Some e, data)
      | Inr data' \<Rightarrow>
          (map_option StoreError (updateMany (filter_q q) [(''$set'', BDoc data')]), Some data'))"

definition GormQuery_Update ::
  "('q \<Rightarrow> bdoc option \<Rightarrow> store_error option) \<Rightarrow> bdoc option \<Rightarrow> 'q \<Rightarrow> error option \<times> bdoc option" where
  "GormQuery_Update updates data q = (map_option StoreError (updates q data), data)"

text \<open>
  The ORM's \<^verbatim>\<open>Updates\<close> on a map, as far as the columns it writes go, for a statement
  with no \<^verbatim>\<open>Select\<close> or \<^verbatim>\<open>Omit\<close> and with hooks on, which is how
  \<^verbatim>\<open>GormQuery.Update\<close> issues it on a query built from conditions. The ORM reads the
  map and does not assign into it. The schema of the model is the list of its fields that
  have a column: the Go name, the column name, and whether the ORM keeps the column as the
  time of the last update (a field named \<^verbatim>\<open>UpdatedAt\<close>, or one tagged
  \<^verbatim>\<open>autoUpdateTime\<close>). \<open>LookUpField\<close> finds a field by its column name, then by its Go
  name. The assignments are the caller's entries, each under the column of the field that
  its key names, a key that names no field being taken as a column; then every
  auto-update column that the map gives under neither of its names, set to the current
  time. The ORM takes the keys in sorted order; the order is not modelled. With no
  assignment no statement is issued; \<open>exec q assignments\<close> is the outcome of the
  \<^verbatim>\<open>UPDATE\<close> statement with these assignments under the conditions of \<open>q\<close>.
\<close>

record Field =
  Name :: string
  DBName :: string
  AutoUpdateTime :: bool

definition LookUpField :: "Field list \<Rightarrow> string \<Rightarrow> Field option" where
  "LookUpField schema name =
     (case List.find (\<lambda>field. DBName field = name) schema of
        Some field \<Rightarrow> Some field
      | None \<Rightarrow> List.find (\<lambda>field. Name field = name) schema)"

definition is_nil :: "any option \<Rightarrow> bool" where
  "is_nil v = (v = None \<or> v = Some BNull)"

definition map_assignments :: "Field list \<Rightarrow> bdoc \<Rightarrow> bdoc" where
  "map_assignments schema m =
     map (\<lambda>(k, kv). (case LookUpField schema k of
                        Some field \<Rightarrow> (DBName field, kv)
                      | None \<Rightarrow> (k, kv))) m"

definition auto_update_assignments :: "Field list \<Rightarrow> int64 \<Rightarrow> bdoc \<Rightarrow> bdoc" where
  "auto_update_assignments schema now m =
     map (\<lambda>field. (DBName field, BDateTime now))
       (filter (\<lambda>field. AutoUpdateTime field \<and> is_nil (map_of m (Name field)) \<and>
                         is_nil (map_of m (DBName field))) schema)"

definition ConvertToAssignments :: "Field list \<Rightarrow> int64 \<Rightarrow> bdoc option \<Rightarrow> bdoc" where
  "ConvertToAssignments schema now data =
     (let m = (case data of None \<Rightarrow> [] | Some d \<Rightarrow> d)
      in map_assignments schema m @ auto_update_assignments schema now m)"

definition gorm_map_Updates ::
  "('q \<Rightarrow> bdoc \<Rightarrow> store_error option) \<Rightarrow> Field list \<Rightarrow> int64 \<Rightarrow> 'q \<Rightarrow> bdoc option \<Rightarrow>
   store_error option" where
  "gorm_map_Updates exec schema now q data =
     (case ConvertToAssignments schema now data of
        [] \<Rightarrow> None
      | a # assignments \<Rightarrow> exec q (a # assignments))"

text \<open>
  The fields of the model \<^verbatim>\<open>User\<close>, and a store that refuses every statement which
  assigns to a given column.
\<close>

definition User_schema :: "Field list" where
  "User_schema =
     [\<lparr>Name = ''ID'', DBName = ''id'', AutoUpdateTime = False\<rparr>,
      \<lparr>Name = ''Email'', DBName = ''email'', AutoUpdateTime = False\<rparr>,
      \<lparr>Name = ''Password'', DBName = ''password'', AutoUpdateTime = False\<rparr>,
      \<lparr>Name = ''Name'', DBName = ''name'', AutoUpdateTime = False\<rparr>,
      \<lparr>Name = ''Avatar'', DBName = ''avatar'', AutoUpdateTime = False\<rparr>,
      \<lparr>Name = ''Role'', DBName = ''role'', AutoUpdateTime = False\<rparr>,
      \<lparr>Name = ''IsActive'', DBName = ''is_active'', AutoUpdateTime = False\<rparr>,
      \<lparr>Name = ''EmailVerified'', DBName = ''email_verified'', AutoUpdateTime = False\<rparr>,
      \<lparr>Name = ''EmailVerifiedAt'', DBName = ''email_verified_at'', AutoUpdateTime = False\<rparr>,
      \<lparr>Name = ''LastLoginAt'', DBName = ''last_login_at'', AutoUpdateTime = False\<rparr>,
      \<lparr>Name = ''RefreshToken'', DBName = ''refresh_token'', AutoUpdateTime = False\<rparr>,
      \<lparr>Name = ''CreatedAt'', DBName = ''created_at'', AutoUpdateTime = False\<rparr>,
      \<lparr>Name = ''UpdatedAt'', DBName = ''updated_at'', AutoUpdateTime = True\<rparr>,
      \<lparr>Name = ''DeletedAt'', DBName = ''deleted_at'', AutoUpdateTime = False\<rparr>]"

definition refuse_column :: "string \<Rightarrow> unit \<Rightarrow> bdoc \<Rightarrow> store_error option" where
  "refuse_column column q assignments =
     (if map_of assignments column = None then None
      else Some (Failure (''no write to '' @ column)))"

section \<open>Document adapter: pagination\<close>

record MongoPaginatedResult =
  mp_query :: MongoQuery
  mp_page :: go_int
  mp_perPage :: go_int

definition MongoQuery_Paginate :: "MongoQuery \<Rightarrow> go_int \<Rightarrow> go_int \<Rightarrow> MongoPaginatedResult" where
  "MongoQuery_Paginate q page perPage = \<lparr>mp_query = q, mp_page = page, mp_perPage = perPage\<rparr>"

text \<open>
  \<^verbatim>\<open>MongoPaginatedResult.Execute\<close>. \<open>cnt f\<close> is the outcome of
  \<^verbatim>\<open>collection.CountDocuments(ctx, f)\<close>. The method assigns to its own fields and to
  \<^verbatim>\<open>skip\<close> and \<^verbatim>\<open>limit\<close> of the query it holds.
\<close>

definition MongoPaginatedResult_Execute ::
  "(bdoc option \<Rightarrow> store_error + int64) \<Rightarrow> (bdoc option \<Rightarrow> FindOptions \<Rightarrow> store_error + 'a list) \<Rightarrow>
   MongoPaginatedResult \<Rightarrow> MongoPaginatedResult \<times> (error + PaginationMeta \<times> 'a list)" where
  "MongoPaginatedResult_Execute cnt drv p =
     (case cnt (filter_q (mp_query p)) of
        Inl err \<Rightarrow> (p, Inl (StoreError err))
      | Inr n \<Rightarrow>
          let p1 = (if mp_page p <s 1 then p\<lparr>mp_page := 1\<rparr> else p);
              p2 = (if mp_perPage p1 <s 1 then p1\<lparr>mp_perPage := 10\<rparr> else p1);
              skip = (mp_page p2 - 1) * mp_perPage p2;
              totalPages = go_quo n (mp_perPage p2);
              totalPages = (if 0 <s go_rem n (mp_perPage p2) then totalPages + 1 else totalPages);
              p3 = p2\<lparr>mp_query := (mp_query p2)\<lparr>skip_q := skip, limit_q := mp_perPage p2\<rparr>\<rparr>
          in (case MongoQuery_Find drv (mp_query p3) of
                Inl err \<Rightarrow> (p3, Inl err)
              | Inr results \<Rightarrow>
                  (p3, Inr (\<lparr>Page = mp_page p3, PerPage = mp_perPage p3, Total = n,
                             TotalPages = totalPages,
                             HasNext = (mp_page p3 <s totalPages),
                             HasPrev = (1 <s mp_page p3)\<rparr>, results))))"

text \<open>
  The pagination meta as the specification words it, in exact integers: the clamped page
  and page size, the ceiling of the quotient, and the two derived flags.
\<close>

definition spec_meta :: "go_int \<Rightarrow> go_int \<Rightarrow> int64 \<Rightarrow> PaginationMeta \<Rightarrow> bool" where
  "spec_meta page perPage n m \<longleftrightarrow>
     (let pg = (if sint page < 1 then 1 else sint page);
          pp = (if sint perPage < 1 then 10 else sint perPage);
          tp = \<lceil>real_of_int (sint n) / real_of_int pp\<rceil>
      in sint (Page m) = pg \<and> sint (PerPage m) = pp \<and> Total m = n \<and>
         sint (TotalPages m) = tp \<and> HasNext m = (pg < tp) \<and> HasPrev m = (1 < pg))"

text \<open>
  The three computations that both \<^verbatim>\<open>Execute\<close> methods share, by name, and the meta
  record they assemble.
\<close>

definition clamp_page :: "go_int \<Rightarrow> go_int" where
  "clamp_page page = (if page <s 1 then 1 else page)"

definition clamp_perPage :: "go_int \<Rightarrow> go_int" where
  "clamp_perPage perPage = (if perPage <s 1 then 10 else perPage)"

definition total_pages :: "int64 \<Rightarrow> go_int \<Rightarrow> go_int" where
  "total_pages n perPage =
     (let totalPages = go_quo n perPage
      in if 0 <s go_rem n perPage then totalPages + 1 else totalPages)"

definition page_meta :: "go_int \<Rightarrow> go_int \<Rightarrow> int64 \<Rightarrow> PaginationMeta" where
  "page_meta page perPage n =
     \<lparr>Page = clamp_page page, PerPage = clamp_perPage perPage, Total = n,
      TotalPages = total_pages n (clamp_perPage perPage),
      HasNext = (clamp_page page <s total_pages n (clamp_perPage perPage)),
      HasPrev = (1 <s clamp_page page)\<rparr>"

section \<open>Document adapter: identifiers and the collection\<close>

text \<open>
  An \<^verbatim>\<open>ObjectID\<close> is twelve bytes. \<open>ObjectIDFromHex\<close> is the driver's function of that
  name: it accepts exactly the strings of 24 hexadecimal digits.
\<close>

type_synonym ObjectID = "8 word list"

definition hex_digit :: "char \<Rightarrow> nat option" where
  "hex_digit c =
     (let n = (of_char c :: nat)
      in if 48 \<le> n \<and> n \<le> 57 then Some (n - 48)
         else if 97 \<le> n \<and> n \<le> 102 then Some (n - 87)
         else if 65 \<le> n \<and> n \<le> 70 then Some (n - 55)
         else None)"

fun hex_decode :: "string \<Rightarrow> 8 word list option" where
  "hex_decode [] = Some []"
| "hex_decode [c] = None"
| "hex_decode (a # b # s) =
     (case hex_digit a of
        None \<Rightarrow> None
      | Some x \<Rightarrow>
          (case hex_digit b of
             None \<Rightarrow> None
           | Some y \<Rightarrow>
               (case hex_decode s of
                  None \<Rightarrow> None
                | Some r \<Rightarrow> Some (of_nat (16 * x + y) # r))))"

definition ObjectIDFromHex :: "string \<Rightarrow> store_error + ObjectID" where
  "ObjectIDFromHex s =
     (if length s \<noteq> 24 then Inl (Failure ''the provided hex string is not a valid ObjectID'')
      else (case hex_decode s of
              None \<Rightarrow> Inl (Failure ''encoding/hex: invalid byte'')
            | Some oid \<Rightarrow> Inr oid))"

definition toObjectID :: "any \<Rightarrow> error + ObjectID" where
  "toObjectID ident =
     (case ident of
        BStr v \<Rightarrow> (case ObjectIDFromHex v of Inl e \<Rightarrow> Inl (StoreError e) | Inr oid \<Rightarrow> Inr oid)
      | BObjectID v \<Rightarrow> Inr v
      | _ \<Rightarrow> Inl (Errorf ''invalid ID type''))"

text \<open>
  The collection is the set of stored documents by \<^verbatim>\<open>_id\<close>. \<open>ReplaceOne\<close> and
  \<open>DeleteOne\<close> below are a model of the store for a call on a single document: the
  call is atomic, a call the store rejects (\<open>rej\<close> answers an error: a write error, a
  failed validation, a lost connection) changes nothing, and a call whose filter matches
  no document succeeds with a count of zero.
\<close>

type_synonym 'd collection = "ObjectID \<rightharpoonup> 'd"

definition collection_ReplaceOne ::
  "('d collection \<Rightarrow> ObjectID \<Rightarrow> 'd \<Rightarrow> store_error option) \<Rightarrow> 'd collection \<Rightarrow> ObjectID \<Rightarrow> 'd \<Rightarrow>
   (store_error + nat) \<times> 'd collection" where
  "collection_ReplaceOne rej c oid d =
     (case rej c oid d of
        Some e \<Rightarrow> (Inl e, c)
      | None \<Rightarrow> (case c oid of None \<Rightarrow> (Inr 0, c) | Some old \<Rightarrow> (Inr 1, c(oid \<mapsto> d))))"

definition collection_DeleteOne ::
  "('d collection \<Rightarrow> ObjectID list \<Rightarrow> store_error option) \<Rightarrow> 'd collection \<Rightarrow> ObjectID \<Rightarrow>
   (store_error + nat) \<times> 'd collection" where
  "collection_DeleteOne rej c oid =
     (case rej c [oid] of
        Some e \<Rightarrow> (Inl e, c)
      | None \<Rightarrow> (case c oid of None \<Rightarrow> (Inr 0, c) | Some old \<Rightarrow> (Inr 1, c(oid := None))))"

text \<open>
  \<^verbatim>\<open>UpdateOne\<close> with \<^verbatim>\<open>{"$inc": {field: delta}}\<close>, where \<open>delta\<close> is the Go
  \<^verbatim>\<open>int\<close> the adapter sends. A document is read as its numeric fields. The numbers a
  store holds (32-bit and 64-bit integers, floating-point numbers) and its arithmetic on
  them are the store's own, so they are parameters: \<open>'n\<close> is the type of a stored number,
  \<open>arith x d\<close> is the store's sum of the stored number \<open>x\<close> and the integer \<open>d\<close>, which
  is the number it stores or the error it raises (an overflow, a field that is not a
  number), and \<open>new d\<close> is the number it stores in a field that the document lacks.
  A call that fails changes nothing.
\<close>

definition collection_UpdateOne_inc ::
  "('n \<Rightarrow> int \<Rightarrow> store_error + 'n) \<Rightarrow> (int \<Rightarrow> 'n) \<Rightarrow>
   ((string \<rightharpoonup> 'n) collection \<Rightarrow> ObjectID \<Rightarrow> string \<Rightarrow> store_error option) \<Rightarrow>
   (string \<rightharpoonup> 'n) collection \<Rightarrow> ObjectID \<Rightarrow> string \<Rightarrow> go_int \<Rightarrow>
   (store_error + nat) \<times> (string \<rightharpoonup> 'n) collection" where
  "collection_UpdateOne_inc arith new rej c oid field delta =
     (case rej c oid field of
        Some e \<Rightarrow> (Inl e, c)
      | None \<Rightarrow>
          (case c oid of
             None \<Rightarrow> (Inr 0, c)
           | Some doc \<Rightarrow>
               (case doc field of
                  None \<Rightarrow> (Inr 1, c(oid \<mapsto> doc(field \<mapsto> new (sint delta))))
                | Some x \<Rightarrow>
                    (case arith x (sint delta) of
                       Inl e \<Rightarrow> (Inl e, c)
                     | Inr y \<Rightarrow> (Inr 1, c(oid \<mapsto> doc(field \<mapsto> y)))))))"

section \<open>Document adapter: the repository\<close>

definition MongoRepository_FindByID ::
  "(ObjectID \<Rightarrow> store_error + 'd) \<Rightarrow> any \<Rightarrow> error + 'd" where
  "MongoRepository_FindByID findOne ident =
     (case toObjectID ident of
        Inl err \<Rightarrow> Inl ErrInvalidID
      | Inr objectID \<Rightarrow>
          (case findOne objectID of
             Inl err \<Rightarrow> if err = Mongo_ErrNoDocuments then Inl ErrRecordNotFound else Inl (StoreError err)
           | Inr result \<Rightarrow> Inr result))"

definition MongoRepository_Update ::
  "('d collection \<Rightarrow> ObjectID \<Rightarrow> 'd \<Rightarrow> store_error option) \<Rightarrow> 'd collection \<Rightarrow> any \<Rightarrow> 'd \<Rightarrow>
   error option \<times> 'd collection" where
  "MongoRepository_Update rej c ident data =
     (case toObjectID ident of
        Inl err \<Rightarrow> (Some ErrInvalidID, c)
      | Inr objectID \<Rightarrow>
          (case collection_ReplaceOne rej c objectID data of
             (Inl err, c') \<Rightarrow> (Some (StoreError err), c')
           | (Inr n, c') \<Rightarrow> (None, c')))"

definition MongoRepository_Delete ::
  "('d collection \<Rightarrow> ObjectID list \<Rightarrow> store_error option) \<Rightarrow> 'd collection \<Rightarrow> any \<Rightarrow>
   error option \<times> 'd collection" where
  "MongoRepository_Delete rej c ident =
     (case toObjectID ident of
        Inl err \<Rightarrow> (Some ErrInvalidID, c)
      | Inr objectID \<Rightarrow>
          (case collection_DeleteOne rej c objectID of
             (Inl err, c') \<Rightarrow> (Some (StoreError err), c')
           | (Inr n, c') \<Rightarrow> (None, c')))"

text \<open>The loop of \<^verbatim>\<open>UpdateBatch\<close> over the identifiers and their data, in step.\<close>

fun UpdateBatch_loop ::
  "('d collection \<Rightarrow> ObjectID \<Rightarrow> 'd \<Rightarrow> store_error option) \<Rightarrow> 'd collection \<Rightarrow> (any \<times> 'd) list \<Rightarrow>
   error option \<times> 'd collection" where
  "UpdateBatch_loop rej c [] = (None, c)"
| "UpdateBatch_loop rej c ((ident, d) # rest) =
     (case toObjectID ident of
        Inl err \<Rightarrow> (Some ErrInvalidID, c)
      | Inr objectID \<Rightarrow>
          (case collection_ReplaceOne rej c objectID d of
             (Inl err, c') \<Rightarrow> (Some (StoreError err), c')
           | (Inr n, c') \<Rightarrow> UpdateBatch_loop rej c' rest))"

definition MongoRepository_UpdateBatch ::
  "('d collection \<Rightarrow> ObjectID \<Rightarrow> 'd \<Rightarrow> store_error option) \<Rightarrow> 'd collection \<Rightarrow> any list \<Rightarrow> 'd list \<Rightarrow>
   error option \<times> 'd collection" where
  "MongoRepository_UpdateBatch rej c ids data =
     (if length ids \<noteq> length data then (Some (Errorf ''ids and data length mismatch''), c)
      else UpdateBatch_loop rej c (zip ids data))"

text \<open>The loop of \<^verbatim>\<open>DeleteBatch\<close> that converts every identifier before anything is deleted.\<close>

fun toObjectIDs :: "any list \<Rightarrow> error + ObjectID list" where
  "toObjectIDs [] = Inr []"
| "toObjectIDs (ident # rest) =
     (case toObjectID ident of
        Inl err \<Rightarrow> Inl ErrInvalidID
      | Inr objectID \<Rightarrow>
          (case toObjectIDs rest of Inl e \<Rightarrow> Inl e | Inr objectIDs \<Rightarrow> Inr (objectID # objectIDs)))"

text \<open>
  \<^verbatim>\<open>DeleteBatch\<close>. \<open>deleteMany c oids\<close> is the outcome of the driver's
  \<^verbatim>\<open>DeleteMany(ctx, {"_id": {"$in": oids}})\<close> on the collection \<open>c\<close>: the error and
  the collection afterwards. The method opens no transaction, and the store does not
  promise that a delete of many documents which fails has deleted none of them, so
  nothing is assumed of the collection that a failed call leaves.
\<close>

definition MongoRepository_DeleteBatch ::
  "('d collection \<Rightarrow> ObjectID list \<Rightarrow> store_error option \<times> 'd collection) \<Rightarrow> 'd collection \<Rightarrow>
   any list \<Rightarrow> error option \<times> 'd collection" where
  "MongoRepository_DeleteBatch deleteMany c ids =
     (case toObjectIDs ids of
        Inl e \<Rightarrow> (Some e, c)
      | Inr objectIDs \<Rightarrow>
          (case deleteMany c objectIDs of
             (err, c') \<Rightarrow> (map_option StoreError err, c')))"

definition MongoRepository_Increment ::
  "('n \<Rightarrow> int \<Rightarrow> store_error + 'n) \<Rightarrow> (int \<Rightarrow> 'n) \<Rightarrow>
   ((string \<rightharpoonup> 'n) collection \<Rightarrow> ObjectID \<Rightarrow> string \<Rightarrow> store_error option) \<Rightarrow>
   (string \<rightharpoonup> 'n) collection \<Rightarrow> any \<Rightarrow> string \<Rightarrow> go_int \<Rightarrow>
   error option \<times> (string \<rightharpoonup> 'n) collection" where
  "MongoRepository_Increment arith new rej c ident field v =
     (case toObjectID ident of
        Inl err \<Rightarrow> (Some ErrInvalidID, c)
      | Inr objectID \<Rightarrow>
          (case collection_UpdateOne_inc arith new rej c objectID field v of
             (Inl err, c') \<Rightarrow> (Some (StoreError err), c')
           | (Inr n, c') \<Rightarrow> (None, c')))"

definition MongoRepository_Decrement ::
  "('n \<Rightarrow> int \<Rightarrow> store_error + 'n) \<Rightarrow> (int \<Rightarrow> 'n) \<Rightarrow>
   ((string \<rightharpoonup> 'n) collection \<Rightarrow> ObjectID \<Rightarrow> string \<Rightarrow> store_error option) \<Rightarrow>
   (string \<rightharpoonup> 'n) collection \<Rightarrow> any \<Rightarrow> string \<Rightarrow> go_int \<Rightarrow>
   error option \<times> (string \<rightharpoonup> 'n) collection" where
  "MongoRepository_Decrement arith new rej c ident field v =
     MongoRepository_Increment arith new rej c ident field (- v)"

text \<open>
  \<^verbatim>\<open>Pluck\<close> and its two narrowing variants. \<open>drv\<close> is the driver's \<^verbatim>\<open>Find\<close> with
  \<^verbatim>\<open>cursor.All\<close> into \<^verbatim>\<open>[]bson.M\<close>.
\<close>

fun pluck_field :: "string \<Rightarrow> bdoc list \<Rightarrow> any list" where
  "pluck_field field [] = []"
| "pluck_field field (doc # results) =
     (case map_of doc field of
        Some val \<Rightarrow> val # pluck_field field results
      | None \<Rightarrow> pluck_field field results)"

definition MongoRepository_Pluck ::
  "(bdoc option \<Rightarrow> FindOptions \<Rightarrow> store_error + bdoc list) \<Rightarrow> string \<Rightarrow> error + any list" where
  "MongoRepository_Pluck drv field =
     (let opts = \<lparr>Sort = None, Limit = None, Skip = None,
                  Projection = Some (AList.update ''_id'' (BInt 0) [(field, BInt 1)])\<rparr>
      in (case drv (Some []) opts of
            Inl err \<Rightarrow> Inl (StoreError err)
          | Inr results \<Rightarrow> Inr (pluck_field field results)))"

fun only_strings :: "any list \<Rightarrow> string list" where
  "only_strings [] = []"
| "only_strings (BStr str # values) = str # only_strings values"
| "only_strings (v # values) = only_strings values"

fun only_ints :: "any list \<Rightarrow> go_int list" where
  "only_ints [] = []"
| "only_ints (BInt i # values) = i # only_ints values"
| "only_ints (v # values) = only_ints values"

definition MongoRepository_PluckString ::
  "(bdoc option \<Rightarrow> FindOptions \<Rightarrow> store_error + bdoc list) \<Rightarrow> string \<Rightarrow> error + string list" where
  "MongoRepository_PluckString drv field =
     (case MongoRepository_Pluck drv field of
        Inl err \<Rightarrow> Inl err
      | Inr values \<Rightarrow> Inr (only_strings values))"

definition MongoRepository_PluckInt ::
  "(bdoc option \<Rightarrow> FindOptions \<Rightarrow> store_error + bdoc list) \<Rightarrow> string \<Rightarrow> error + go_int list" where
  "MongoRepository_PluckInt drv field =
     (case MongoRepository_Pluck drv field of
        Inl err \<Rightarrow> Inl err
      | Inr values \<Rightarrow> Inr (only_ints values))"

section \<open>Relational adapter: the table and the repository\<close>

text \<open>
  The table is the set of stored rows by primary key. The ORM and the store behind it are
  outside the package, so each statement the adapter issues is a parameter that gives the
  statement's outcome on a table: the \<^verbatim>\<open>Error\<close> and the \<^verbatim>\<open>RowsAffected\<close> that the
  adapter reads, and the table afterwards. Nothing else is assumed of a statement: which
  rows it matches, which columns it writes and how many rows it reports are the ORM's.
\<close>

type_synonym ('k, 'r) table = "'k \<rightharpoonup> 'r"

type_synonym ('k, 'r) orm_result = "(store_error option \<times> nat) \<times> ('k, 'r) table"

text \<open>\<open>orm_first ident\<close> is the outcome of \<^verbatim>\<open>db.First(&result, id)\<close>.\<close>

definition GormRepository_FindByID :: "('k \<Rightarrow> store_error + 'r) \<Rightarrow> 'k \<Rightarrow> error + 'r" where
  "GormRepository_FindByID orm_first ident =
     (case orm_first ident of
        Inl err \<Rightarrow> if err = Gorm_ErrRecordNotFound then Inl ErrRecordNotFound else Inl (StoreError err)
      | Inr result \<Rightarrow> Inr result)"

text \<open>
  \<open>orm_updates t ident data\<close> is the outcome of
  \<^verbatim>\<open>Model(&model).Where("id = ?", id).Updates(data)\<close> on the table \<open>t\<close>, and
  \<open>orm_delete t ident\<close> that of \<^verbatim>\<open>Delete(&model, id)\<close>.
\<close>

definition GormRepository_Update ::
  "(('k, 'r) table \<Rightarrow> 'k \<Rightarrow> 'r \<Rightarrow> ('k, 'r) orm_result) \<Rightarrow> ('k, 'r) table \<Rightarrow> 'k \<Rightarrow> 'r \<Rightarrow>
   error option \<times> ('k, 'r) table" where
  "GormRepository_Update orm_updates t ident data =
     (case orm_updates t ident data of
        ((Some err, rowsAffected), t') \<Rightarrow> (Some (StoreError err), t')
      | ((None, rowsAffected), t') \<Rightarrow>
          if rowsAffected = 0 then (Some ErrRecordNotFound, t') else (None, t'))"

definition GormRepository_Delete ::
  "(('k, 'r) table \<Rightarrow> 'k \<Rightarrow> ('k, 'r) orm_result) \<Rightarrow> ('k, 'r) table \<Rightarrow> 'k \<Rightarrow>
   error option \<times> ('k, 'r) table" where
  "GormRepository_Delete orm_delete t ident =
     (case orm_delete t ident of
        ((Some err, rowsAffected), t') \<Rightarrow> (Some (StoreError err), t')
      | ((None, rowsAffected), t') \<Rightarrow>
          if rowsAffected = 0 then (Some ErrRecordNotFound, t') else (None, t'))"

text \<open>
  \<^verbatim>\<open>UpdateBatch\<close>. \<^verbatim>\<open>Begin\<close> opens a transaction on the table: the loop works on the
  transaction's own state \<open>w\<close>, which starts as the stored table, and each
  \<^verbatim>\<open>tx.Model(&model).Where("id = ?", id).Updates(&data[i])\<close> acts on it; the loop reads
  the statement's \<^verbatim>\<open>Error\<close> and not its \<^verbatim>\<open>RowsAffected\<close>. \<^verbatim>\<open>Rollback\<close> drops the
  transaction's state; \<^verbatim>\<open>Commit\<close> makes it the stored table, unless the store refuses
  the commit (\<open>commit w\<close> answers an error), which also drops it.
\<close>

fun tx_loop ::
  "(('k, 'r) table \<Rightarrow> 'k \<Rightarrow> 'r \<Rightarrow> ('k, 'r) orm_result) \<Rightarrow> ('k, 'r) table \<Rightarrow>
   ('k \<times> 'r) list \<Rightarrow> store_error + ('k, 'r) table" where
  "tx_loop orm_updates w [] = Inr w"
| "tx_loop orm_updates w ((ident, d) # rest) =
     (case orm_updates w ident d of
        ((Some err, rowsAffected), w') \<Rightarrow> Inl err
      | ((None, rowsAffected), w') \<Rightarrow> tx_loop orm_updates w' rest)"

definition GormRepository_UpdateBatch ::
  "(('k, 'r) table \<Rightarrow> 'k \<Rightarrow> 'r \<Rightarrow> ('k, 'r) orm_result) \<Rightarrow>
   (('k, 'r) table \<Rightarrow> store_error option) \<Rightarrow> ('k, 'r) table \<Rightarrow> 'k list \<Rightarrow> 'r list \<Rightarrow>
   error option \<times> ('k, 'r) table" where
  "GormRepository_UpdateBatch orm_updates commit t ids data =
     (if length ids \<noteq> length data
      then (Some (Errorf ''ids and data must have the same length''), t)
      else (case tx_loop orm_updates t (zip ids data) of
              Inl err \<Rightarrow> (Some (StoreError err), t)
            | Inr w \<Rightarrow>
                (case commit w of
                   Some err \<Rightarrow> (Some (StoreError err), t)
                 | None \<Rightarrow> (None, w))))"

text \<open>
  \<^verbatim>\<open>Increment\<close> and \<^verbatim>\<open>Decrement\<close> issue
  \<^verbatim>\<open>UpdateColumn(field, gorm.Expr("field + ?", value))\<close> and
  \<^verbatim>\<open>UpdateColumn(field, gorm.Expr("field - ?", value))\<close> under
  \<^verbatim>\<open>Where("id = ?", id)\<close>; the expression is \<open>ExprPlus value\<close> or \<open>ExprMinus value\<close>. Neither
  method reads \<^verbatim>\<open>RowsAffected\<close>.

  The store evaluates the expression on the column of the row with that key. The numbers
  a column holds (bounded integers, floating-point numbers) and the store's arithmetic on
  them are the store's own, so they are parameters: \<open>'n\<close> is the type of a stored number
  and \<open>arith x d\<close> is the store's sum of the stored number \<open>x\<close> and the integer \<open>d\<close>,
  which is the number it stores or the error it raises. Subtracting the argument \<open>d\<close> is
  adding \<open>- d\<close>, the integer that is the negation of \<open>d\<close> (not Go's \<^verbatim>\<open>-d\<close>, which
  wraps). A statement the store rejects for another reason (\<open>rej\<close> answers an error), or
  whose arithmetic fails, changes nothing.
\<close>

datatype sql_expr = ExprPlus go_int | ExprMinus go_int

definition expr_delta :: "sql_expr \<Rightarrow> int" where
  "expr_delta e = (case e of ExprPlus v \<Rightarrow> sint v | ExprMinus v \<Rightarrow> - sint v)"

definition gorm_UpdateColumn ::
  "('n \<Rightarrow> int \<Rightarrow> store_error + 'n) \<Rightarrow>
   (('k, string \<Rightarrow> 'n) table \<Rightarrow> 'k \<Rightarrow> string \<Rightarrow> store_error option) \<Rightarrow> ('k, string \<Rightarrow> 'n) table \<Rightarrow>
   'k \<Rightarrow> string \<Rightarrow> sql_expr \<Rightarrow> store_error option \<times> ('k, string \<Rightarrow> 'n) table" where
  "gorm_UpdateColumn arith rej t ident field e =
     (case rej t ident field of
        Some err \<Rightarrow> (Some err, t)
      | None \<Rightarrow>
          (case t ident of
             None \<Rightarrow> (None, t)
           | Some row \<Rightarrow>
               (case arith (row field) (expr_delta e) of
                  Inl err \<Rightarrow> (Some err, t)
                | Inr y \<Rightarrow> (None, t(ident \<mapsto> row(field := y))))))"

definition GormRepository_Increment ::
  "('n \<Rightarrow> int \<Rightarrow> store_error + 'n) \<Rightarrow>
   (('k, string \<Rightarrow> 'n) table \<Rightarrow> 'k \<Rightarrow> string \<Rightarrow> store_error option) \<Rightarrow> ('k, string \<Rightarrow> 'n) table \<Rightarrow>
   'k \<Rightarrow> string \<Rightarrow> go_int \<Rightarrow> error option \<times> ('k, string \<Rightarrow> 'n) table" where
  "GormRepository_Increment arith rej t ident field v =
     (case gorm_UpdateColumn arith rej t ident field (ExprPlus v) of
        (err, t') \<Rightarrow> (map_option StoreError err, t'))"

definition GormRepository_Decrement ::
  "('n \<Rightarrow> int \<Rightarrow> store_error + 'n) \<Rightarrow>
   (('k, string \<Rightarrow> 'n) table \<Rightarrow> 'k \<Rightarrow> string \<Rightarrow> store_error option) \<Rightarrow> ('k, string \<Rightarrow> 'n) table \<Rightarrow>
   'k \<Rightarrow> string \<Rightarrow> go_int \<Rightarrow> error option \<times> ('k, string \<Rightarrow> 'n) table" where
  "GormRepository_Decrement arith rej t ident field v =
     (case gorm_UpdateColumn arith rej t ident field (ExprMinus v) of
        (err, t') \<Rightarrow> (map_option StoreError err, t'))"

text \<open>
  \<^verbatim>\<open>PluckString\<close> and \<^verbatim>\<open>PluckInt\<close>: \<open>orm_pluck field\<close> is what the ORM's
  \<^verbatim>\<open>Pluck(field, &results)\<close> leaves in \<^verbatim>\<open>results\<close> and in \<^verbatim>\<open>Error\<close>.
\<close>

definition GormRepository_PluckString ::
  "(string \<Rightarrow> string list \<times> store_error option) \<Rightarrow> string \<Rightarrow> string list \<times> error option" where
  "GormRepository_PluckString orm_pluck field =
     (case orm_pluck field of (results, err) \<Rightarrow> (results, map_option StoreError err))"

definition GormRepository_PluckInt ::
  "(string \<Rightarrow> go_int list \<times> store_error option) \<Rightarrow> string \<Rightarrow> go_int list \<times> error option" where
  "GormRepository_PluckInt orm_pluck field =
     (case orm_pluck field of (results, err) \<Rightarrow> (results, map_option StoreError err))"

section \<open>Document store: which documents a filter selects\<close>

text \<open>
  The store's reading of a filter document, for the fragment the query builder's
  \<^verbatim>\<open>Where\<close>, \<^verbatim>\<open>OrWhere\<close> and \<^verbatim>\<open>OrQuery\<close> produce: the conditions of one document
  hold together; \<^verbatim>\<open>$and\<close>, \<^verbatim>\<open>$or\<close> and \<^verbatim>\<open>$nor\<close> take a list of filter
  documents; any other key is a field compared for equality (a \<^verbatim>\<open>null\<close> value also
  selects a document without the field). Operator documents such as \<^verbatim>\<open>{"$gt": v}\<close> are
  outside this fragment. A stored document is a \<^verbatim>\<open>bson.M\<close>.
\<close>

definition field_eq :: "any option \<Rightarrow> any \<Rightarrow> bool" where
  "field_eq stored v = (stored = Some v \<or> (v = BNull \<and> stored = None))"

fun matches :: "bdoc \<Rightarrow> bdoc \<Rightarrow> bool" where
  "matches [] r = True"
| "matches ((k, v) # rest) r =
     ((if k = ''$and'' then (case v of BDocs ds \<Rightarrow> list_all (\<lambda>d. matches d r) ds | _ \<Rightarrow> False)
       else if k = ''$or'' then (case v of BDocs ds \<Rightarrow> list_ex (\<lambda>d. matches d r) ds | _ \<Rightarrow> False)
       else if k = ''$nor'' then (case v of BDocs ds \<Rightarrow> \<not> list_ex (\<lambda>d. matches d r) ds | _ \<Rightarrow> False)
       else field_eq (map_of r k) v)
      \<and> matches rest r)"

text \<open>
  The driver's \<^verbatim>\<open>Find\<close> on a collection holding \<open>docs\<close>: the selected documents in
  stored order, after \<^verbatim>\<open>Skip\<close> and \<^verbatim>\<open>Limit\<close>; sorting and projection are not modelled.
\<close>

definition collection_Find :: "bdoc list \<Rightarrow> bdoc option \<Rightarrow> FindOptions \<Rightarrow> store_error + bdoc list" where
  "collection_Find docs f opts =
     (case f of
        None \<Rightarrow> Inl (Failure ''document is nil'')
      | Some d \<Rightarrow>
          let hits = filter (matches d) docs;
              hits = (case Skip opts of None \<Rightarrow> hits | Some n \<Rightarrow> drop (unat n) hits);
              hits = (case Limit opts of None \<Rightarrow> hits | Some n \<Rightarrow> take (unat n) hits)
          in Inr hits)"

text \<open>A collection of three users, one of each role.\<close>

definition users :: "bdoc list" where
  "users = [[(''name'', BStr ''ann''), (''role'', BStr ''admin'')],
            [(''name'', BStr ''bob''), (''role'', BStr ''moderator'')],
            [(''name'', BStr ''cy''), (''role'', BStr ''user'')]]"

section \<open>Relational adapter: what a batch of updates amounts to\<close>

text \<open>
  The table after a list of per-identifier updates, each statement acting on the table
  that the one before it left; and the error, if any, of the \<open>i\<close>-th statement of a
  batch, issued on the table as the statements before it have left it.
\<close>

fun apply_updates ::
  "(('k, 'r) table \<Rightarrow> 'k \<Rightarrow> 'r \<Rightarrow> ('k, 'r) orm_result) \<Rightarrow> ('k, 'r) table \<Rightarrow> ('k \<times> 'r) list \<Rightarrow>
   ('k, 'r) table" where
  "apply_updates orm_updates t [] = t"
| "apply_updates orm_updates t ((ident, d) # rest) =
     apply_updates orm_updates (snd (orm_updates t ident d)) rest"

definition step_rejected ::
  "(('k, 'r) table \<Rightarrow> 'k \<Rightarrow> 'r \<Rightarrow> ('k, 'r) orm_result) \<Rightarrow> ('k, 'r) table \<Rightarrow> ('k \<times> 'r) list \<Rightarrow>
   nat \<Rightarrow> store_error option" where
  "step_rejected orm_updates t kvs i =
     fst (fst (orm_updates (apply_updates orm_updates t (take i kvs)) (fst (kvs ! i)) (snd (kvs ! i))))"

text \<open>
  An ORM over a table of numbers for the examples: an update to the value \<open>0\<close> violates
  a constraint of the table and changes nothing, an update of a key that is not stored
  matches no row, and any other update stores the new value.
\<close>

definition checked_Updates :: "(nat, nat) table \<Rightarrow> nat \<Rightarrow> nat \<Rightarrow> (nat, nat) orm_result" where
  "checked_Updates t ident d =
     (if d = 0 then ((Some (Failure ''constraint violation''), 0), t)
      else (case t ident of
              None \<Rightarrow> ((None, 0), t)
            | Some row \<Rightarrow> ((None, 1), t(ident \<mapsto> d))))"

definition three_rows :: "(nat, nat) table" where
  "three_rows = [1 \<mapsto> 10, 2 \<mapsto> 20, 3 \<mapsto> 30]"

section \<open>Document adapter: what a batch of replacements amounts to\<close>

text \<open>
  The collection after a list of per-identifier replacements, each applied to the document
  it names if the identifier is well formed and such a document is stored; and the error
  of the \<open>i\<close>-th step of a batch, if it has one: a malformed identifier, or the store's
  verdict on the collection as the steps before it have left it.
\<close>

fun apply_replaces :: "'d collection \<Rightarrow> (any \<times> 'd) list \<Rightarrow> 'd collection" where
  "apply_replaces c [] = c"
| "apply_replaces c ((ident, d) # rest) =
     apply_replaces
       (case toObjectID ident of
          Inl err \<Rightarrow> c
        | Inr oid \<Rightarrow> (case c oid of None \<Rightarrow> c | Some old \<Rightarrow> c(oid \<mapsto> d)))
       rest"

definition step_error ::
  "('d collection \<Rightarrow> ObjectID \<Rightarrow> 'd \<Rightarrow> store_error option) \<Rightarrow> 'd collection \<Rightarrow> (any \<times> 'd) list \<Rightarrow>
   nat \<Rightarrow> error option" where
  "step_error rej c kvs i =
     (case toObjectID (fst (kvs ! i)) of
        Inl err \<Rightarrow> Some ErrInvalidID
      | Inr oid \<Rightarrow> map_option StoreError (rej (apply_replaces c (take i kvs)) oid (snd (kvs ! i))))"

text \<open>
  Three well-formed identifiers, a collection holding a document under each, and a store
  that rejects every write to the second.
\<close>

definition three_ids :: "any list" where
  "three_ids = [BStr ''5f1d7f3e2a4b6c8d9e0f1a2b'', BStr ''5f1d7f3e2a4b6c8d9e0f1a2c'',
                BStr ''5f1d7f3e2a4b6c8d9e0f1a2d'']"

definition three_docs :: "nat collection" where
  "three_docs = [[95, 29, 127, 62, 42, 75, 108, 141, 158, 15, 26, 43] \<mapsto> 10,
                 [95, 29, 127, 62, 42, 75, 108, 141, 158, 15, 26, 44] \<mapsto> 20,
                 [95, 29, 127, 62, 42, 75, 108, 141, 158, 15, 26, 45] \<mapsto> 30]"

definition reject_second :: "nat collection \<Rightarrow> ObjectID \<Rightarrow> nat \<Rightarrow> store_error option" where
  "reject_second c oid d =
     (if oid = [95, 29, 127, 62, 42, 75, 108, 141, 158, 15, 26, 44]
      then Some (Failure ''write error'') else None)"

text \<open>
  Two outcomes of a delete of many documents, for the examples: the store deletes every
  document named; or it fails after it has deleted the first one.
\<close>

definition delete_all :: "nat collection \<Rightarrow> ObjectID list \<Rightarrow> store_error option \<times> nat collection" where
  "delete_all c oids = (None, (\<lambda>oid. if oid \<in> set oids then None else c oid))"

definition delete_interrupted ::
  "nat collection \<Rightarrow> ObjectID list \<Rightarrow> store_error option \<times> nat collection" where
  "delete_interrupted c oids =
     (case oids of
        [] \<Rightarrow> (None, c)
      | oid # rest \<Rightarrow> (Some (Failure ''interrupted''), c(oid := None)))"

section \<open>Counters\<close>

text \<open>The least \<^verbatim>\<open>int\<close>, \<^verbatim>\<open>math.MinInt64\<close>: the one value whose negation in Go is itself.\<close>

definition MinInt :: go_int where
  "MinInt = - (2 ^ 63)"

text \<open>
  A store of 64-bit integers that raises an error when a sum leaves their range, as a
  \<^verbatim>\<open>bigint\<close> column of PostgreSQL or MySQL does. A stored number is its value.
\<close>

definition checked_add :: "int \<Rightarrow> int \<Rightarrow> store_error + int" where
  "checked_add x d =
     (if - (2 ^ 63) \<le> x + d \<and> x + d < 2 ^ 63 then Inr (x + d)
      else Inl (Failure ''bigint out of range''))"

text \<open>
  SQLite on a column of integer affinity, for the integral values. A value is a 64-bit
  \<^verbatim>\<open>INTEGER\<close> or a \<^verbatim>\<open>REAL\<close>, a double. The sum of two integers is an integer when
  it fits; when it overflows, and when an operand is a \<^verbatim>\<open>REAL\<close>, both operands are
  taken as doubles and the sum is a double. The column then stores a \<^verbatim>\<open>REAL\<close> as an
  \<^verbatim>\<open>INTEGER\<close> when it lies strictly between the least and the greatest 64-bit integer.
  No sum raises an error. \<open>round_double k\<close> is the double nearest to the integer \<open>k\<close>,
  ties going to the even significand; a double holds 53 significant bits, and
  \<open>lost_bits a\<close> is the number of low bits of \<open>a\<close> that it cannot hold.
\<close>

datatype sqlite_value = SqlInteger int | SqlReal int

fun lost_bits :: "nat \<Rightarrow> nat" where
  "lost_bits a = (if a < 2 ^ 53 then 0 else Suc (lost_bits (a div 2)))"

declare lost_bits.simps [simp del]

definition round_double :: "int \<Rightarrow> int" where
  "round_double k =
     (let a = nat \<bar>k\<bar>;
          e = lost_bits a;
          q = a div 2 ^ e;
          r = a mod 2 ^ e;
          q = (if 2 ^ e < 2 * r \<or> (2 ^ e = 2 * r \<and> odd q) then q + 1 else q)
      in sgn k * int (q * 2 ^ e))"

definition integer_affinity :: "int \<Rightarrow> sqlite_value" where
  "integer_affinity r = (if - (2 ^ 63) < r \<and> r < 2 ^ 63 then SqlInteger r else SqlReal r)"

definition sqlite_add :: "sqlite_value \<Rightarrow> int \<Rightarrow> store_error + sqlite_value" where
  "sqlite_add x d =
     (case x of
        SqlInteger i \<Rightarrow>
          if - (2 ^ 63) \<le> i + d \<and> i + d < 2 ^ 63 then Inr (SqlInteger (i + d))
          else Inr (integer_affinity (round_double (round_double i + round_double d)))
      | SqlReal r \<Rightarrow> Inr (integer_affinity (round_double (r + round_double d))))"

text \<open>
  A table with one row and a collection with one document, their counters at zero; a
  document that has no counter; and an SQLite table whose counter is the greatest 64-bit
  integer.
\<close>

definition one_row :: "(nat, string \<Rightarrow> int) table" where
  "one_row = [1 \<mapsto> (\<lambda>column. 0)]"

definition one_doc :: "(string \<rightharpoonup> int) collection" where
  "one_doc = [[95, 29, 127, 62, 42, 75, 108, 141, 158, 15, 26, 43] \<mapsto> [''counter'' \<mapsto> 0]]"

definition no_counter :: "(string \<rightharpoonup> int) collection" where
  "no_counter = [[95, 29, 127, 62, 42, 75, 108, 141, 158, 15, 26, 43] \<mapsto> [''visits'' \<mapsto> 7]]"

definition full_row :: "(nat, string \<Rightarrow> sqlite_value) table" where
  "full_row = [1 \<mapsto> (\<lambda>column. SqlInteger (2 ^ 63 - 1))]"

text \<open>A table on a checked store whose counter is six below the greatest 64-bit integer.\<close>

definition high_row :: "(nat, string \<Rightarrow> int) table" where
  "high_row = [1 \<mapsto> (\<lambda>column. 2 ^ 63 - 6)]"

section \<open>Narrowing a plucked column\<close>

text \<open>The values of a list whose dynamic type is \<^verbatim>\<open>string\<close>, and those whose type is \<^verbatim>\<open>int\<close>, in order.\<close>

definition strings_of :: "any list \<Rightarrow> string list" where
  "strings_of values = List.map_filter (\<lambda>v. case v of BStr s \<Rightarrow> Some s | _ \<Rightarrow> None) values"

definition ints_of :: "any list \<Rightarrow> go_int list" where
  "ints_of values = List.map_filter (\<lambda>v. case v of BInt i \<Rightarrow> Some i | _ \<Rightarrow> None) values"

text \<open>
  What the driver decodes from three stored documents: two hold an integer age, as
  \<^verbatim>\<open>int32\<close> and as \<^verbatim>\<open>int64\<close>, and one a string.
\<close>

definition three_ages :: "bdoc list" where
  "three_ages = [[(''name'', BStr ''ann''), (''age'', BInt32 30)],
                 [(''name'', BStr ''bob''), (''age'', BInt64 41)],
                 [(''name'', BStr ''cy''), (''age'', BStr ''n/a'')]]"

section \<open>Properties: pagination\<close>

lemma trunc_quo_nonneg:
  fixes a b :: int
  assumes "1 \<le> b" "0 \<le> a"
  shows "a sdiv b = a div b" "a smod b = a mod b"
  using assms by (simp_all add: signed_divide_int_def signed_modulo_int_def sgn_if)

lemma trunc_quo_neg:
  fixes a b :: int
  assumes "1 \<le> b" "a < 0"
  shows "a sdiv b = - ((- a) div b)" "a smod b = - ((- a) mod b)"
  using assms by (simp_all add: signed_divide_int_def signed_modulo_int_def sgn_if)

lemma trunc_quo_ceiling:
  fixes a b :: int
  assumes "1 \<le> b"
  shows "(if 0 < a smod b then a sdiv b + 1 else a sdiv b) = - ((- a) div b)"
proof (cases "0 \<le> a")
  case True
  have "0 \<le> a mod b" using assms by simp
  then have "a mod b \<noteq> 0 \<longleftrightarrow> 0 < a mod b" by linarith
  then show ?thesis
    using assms True by (simp add: trunc_quo_nonneg zdiv_zminus1_eq_if)
next
  case False
  have "0 \<le> (- a) mod b" using assms by simp
  then have "\<not> 0 < - ((- a) mod b)" by linarith
  then show ?thesis
    using assms False by (simp add: trunc_quo_neg)
qed

lemma trunc_quo_range:
  fixes a b :: int
  assumes "1 \<le> b"
  shows "min a 0 \<le> a sdiv b" and "a sdiv b \<le> max a 0"
proof -
  have d: "0 \<le> k \<Longrightarrow> 0 \<le> k div b \<and> k div b \<le> k" for k
    using assms zdiv_mono2 [of k 1 b] by (simp add: pos_imp_zdiv_nonneg_iff)
  show "min a 0 \<le> a sdiv b"
    using assms d [of a] d [of "- a"]
    by (cases "0 \<le> a") (simp_all add: trunc_quo_nonneg trunc_quo_neg)
  show "a sdiv b \<le> max a 0"
    using assms d [of a] d [of "- a"]
    by (cases "0 \<le> a") (simp_all add: trunc_quo_nonneg trunc_quo_neg)
qed

lemma trunc_rem_range:
  fixes a b :: int
  assumes "1 \<le> b"
  shows "- b < a smod b" and "a smod b < b"
proof -
  have m: "0 \<le> k mod b" "k mod b < b" for k
    using assms by simp_all
  show "- b < a smod b"
  proof (cases "0 \<le> a")
    case True
    have "- b < a mod b" using assms pos_mod_sign [of b a] by linarith
    then show ?thesis using assms True by (simp add: trunc_quo_nonneg)
  next
    case False
    then show ?thesis using assms m(2) [of "- a"] by (simp add: trunc_quo_neg)
  qed
  show "a smod b < b"
  proof (cases "0 \<le> a")
    case True
    then show ?thesis using assms m(2) [of a] by (simp add: trunc_quo_nonneg)
  next
    case False
    have "- ((- a) mod b) < b" using assms pos_mod_sign [of b "- a"] by linarith
    then show ?thesis using assms False by (simp add: trunc_quo_neg)
  qed
qed

lemma sint_in_range:
  fixes k :: int
  assumes "- (2 ^ 63) \<le> k" "k < 2 ^ 63"
  shows "sint (word_of_int k :: 64 word) = k"
  using assms by (simp add: sint_sbintrunc' signed_take_bit_int_eq_self)

lemma sint_bounds64: "- (2 ^ 63) \<le> sint (w :: 64 word)" "sint (w :: 64 word) < 2 ^ 63"
  using sint_ge [of w] sint_lt [of w] by simp_all

lemma sint_go_quo:
  assumes "1 \<le> sint b"
  shows "sint (go_quo a b) = sint a sdiv sint b"
proof -
  have "min (sint a) 0 \<le> sint a sdiv sint b" "sint a sdiv sint b \<le> max (sint a) 0"
    using assms by (rule trunc_quo_range)+
  then have "- (2 ^ 63) \<le> sint a sdiv sint b" "sint a sdiv sint b < 2 ^ 63"
    using sint_bounds64 [of a] by linarith+
  then show ?thesis unfolding go_quo_def by (rule sint_in_range)
qed

lemma sint_go_rem:
  assumes "1 \<le> sint b"
  shows "sint (go_rem a b) = sint a smod sint b"
proof -
  have "- sint b < sint a smod sint b" "sint a smod sint b < sint b"
    using assms by (rule trunc_rem_range)+
  then have "- (2 ^ 63) \<le> sint a smod sint b" "sint a smod sint b < 2 ^ 63"
    using sint_bounds64 [of b] by linarith+
  then show ?thesis unfolding go_rem_def by (rule sint_in_range)
qed

lemma sint_total_pages_div:
  assumes "1 \<le> sint perPage"
  shows "sint (total_pages n perPage) = - ((- sint n) div sint perPage)"
proof -
  let ?a = "sint n" and ?b = "sint perPage"
  have c: "(if 0 < ?a smod ?b then ?a sdiv ?b + 1 else ?a sdiv ?b) = - ((- ?a) div ?b)"
    using assms by (rule trunc_quo_ceiling)
  have rem: "(0 <s go_rem n perPage) = (0 < ?a smod ?b)"
    using assms by (simp add: word_sless_alt sint_go_rem)
  show ?thesis
  proof (cases "0 < ?a smod ?b")
    case True
    then have "0 \<le> ?a"
      using assms trunc_quo_neg(2) [of ?b ?a] pos_mod_sign [of ?b "- ?a"] by linarith
    then have "?a sdiv ?b \<le> ?a" "0 \<le> ?a sdiv ?b"
      using assms trunc_quo_range [of ?b ?a] by simp_all
    moreover have "?a sdiv ?b \<noteq> ?a"
    proof
      assume e: "?a sdiv ?b = ?a"
      have "?a sdiv ?b * ?b + ?a smod ?b = ?a" by (rule sdiv_mult_smod_eq)
      then have "?a * (?b - 1) + ?a smod ?b = 0" using e by (simp add: algebra_simps)
      moreover have "0 \<le> ?a * (?b - 1)" using \<open>0 \<le> ?a\<close> assms by simp
      ultimately show False using True by linarith
    qed
    ultimately have "- (2 ^ 63) \<le> ?a sdiv ?b + 1" "?a sdiv ?b + 1 < 2 ^ 63"
      using sint_bounds64 [of n] by linarith+
    then have "sint (word_of_int (?a sdiv ?b + 1) :: 64 word) = ?a sdiv ?b + 1"
      by (rule sint_in_range)
    moreover have "total_pages n perPage = word_of_int (?a sdiv ?b + 1)"
      using True rem by (simp add: total_pages_def go_quo_def)
    ultimately show ?thesis using c True by simp
  next
    case False
    then show ?thesis using c rem assms by (simp add: total_pages_def sint_go_quo)
  qed
qed

lemma sint_total_pages:
  assumes "1 \<le> sint perPage"
  shows "sint (total_pages n perPage) = \<lceil>real_of_int (sint n) / real_of_int (sint perPage)\<rceil>"
proof -
  have "\<lceil>real_of_int (sint n) / real_of_int (sint perPage)\<rceil> = - ((- sint n) div sint perPage)"
    by (rule ceiling_divide_eq_div)
  then show ?thesis using sint_total_pages_div [OF assms] by (simp only:)
qed

lemma sint_clamp_page: "sint (clamp_page page) = (if sint page < 1 then 1 else sint page)"
  by (simp add: clamp_page_def word_sless_alt)

lemma sint_clamp_perPage: "sint (clamp_perPage perPage) = (if sint perPage < 1 then 10 else sint perPage)"
  by (simp add: clamp_perPage_def word_sless_alt)

lemma clamp_perPage_pos: "1 \<le> sint (clamp_perPage perPage)"
  by (simp add: sint_clamp_perPage)

lemma spec_meta_page_meta: "spec_meta page perPage n (page_meta page perPage n)"
proof -
  have tp: "sint (total_pages n (clamp_perPage perPage)) =
        \<lceil>real_of_int (sint n) / real_of_int (sint (clamp_perPage perPage))\<rceil>"
    using clamp_perPage_pos by (rule sint_total_pages)
  show ?thesis
    unfolding spec_meta_def Let_def page_meta_def
    using tp by (simp add: word_sless_alt sint_clamp_page sint_clamp_perPage)
qed

lemma Gorm_Execute_eq:
  assumes "cnt q = Inr n"
  shows "snd (GormPaginatedResult_Execute cnt fnd (GormQuery_Paginate q page perPage)) =
     (case fnd q (clamp_perPage perPage) ((clamp_page page - 1) * clamp_perPage perPage) of
        Inl err \<Rightarrow> Inl (StoreError err)
      | Inr results \<Rightarrow> Inr (page_meta page perPage n, results))"
  using assms
  by (simp add: GormPaginatedResult_Execute_def GormQuery_Paginate_def Let_def page_meta_def
      clamp_page_def clamp_perPage_def total_pages_def split: sum.splits)

lemma Mongo_Execute_eq:
  assumes "cnt (filter_q q) = Inr n"
  shows "snd (MongoPaginatedResult_Execute cnt drv (MongoQuery_Paginate q page perPage)) =
     (case MongoQuery_Find drv
             (q\<lparr>skip_q := (clamp_page page - 1) * clamp_perPage perPage,
                limit_q := clamp_perPage perPage\<rparr>) of
        Inl err \<Rightarrow> Inl err
      | Inr results \<Rightarrow> Inr (page_meta page perPage n, results))"
  using assms
  by (simp add: MongoPaginatedResult_Execute_def MongoQuery_Paginate_def Let_def page_meta_def
      clamp_page_def clamp_perPage_def total_pages_def split: sum.splits)

lemma exact_offset:
  fixes pg pp :: go_int
  assumes "1 \<le> sint pg" "1 \<le> sint pp" "(sint pg - 1) * sint pp < 2 ^ 63"
  shows "sint ((pg - 1) * pp) = (sint pg - 1) * sint pp"
proof -
  have "- (2 ^ 63) \<le> sint pg - 1" "sint pg - 1 < 2 ^ 63"
    using assms(1) sint_bounds64 [of pg] by linarith+
  then have "signed_take_bit 63 (sint pg - 1) = sint pg - 1"
    by (rule signed_take_bit_int_eq_self)
  then have m1: "sint (pg - 1) = sint pg - 1"
    by (simp add: sint_word_ariths word_size)
  have "0 \<le> (sint pg - 1) * sint pp" using assms(1,2) by simp
  moreover have "- (2 ^ 63) \<le> (0 :: int)" by simp
  ultimately have "- (2 ^ 63) \<le> (sint pg - 1) * sint pp" by (rule order_trans [rotated])
  then have "signed_take_bit 63 ((sint pg - 1) * sint pp) = (sint pg - 1) * sint pp"
    using assms(3) by (rule signed_take_bit_int_eq_self)
  then show ?thesis
    using m1 by (simp add: sint_word_ariths word_size)
qed


lemma MongoQuery_Find_paged:
  assumes "1 \<le> sint perPage"
  shows "MongoQuery_Find drv (q\<lparr>skip_q := off, limit_q := perPage\<rparr>) =
     (case drv (filter_q q)
             \<lparr>Sort = (if sort_q q = [] then None else Some (sort_q q)),
              Limit = Some perPage,
              Skip = (if 0 <s off then Some off else None),
              Projection = projection_q q\<rparr> of
        Inl err \<Rightarrow> Inl (StoreError err)
      | Inr results \<Rightarrow> Inr results)"
proof -
  have "0 <s perPage" using assms by (simp add: word_sless_alt)
  then show ?thesis
    by (cases "projection_q q") (simp_all add: MongoQuery_Find_def Let_def)
qed

text \<open>
  C2. For every page, page size and total, \<^verbatim>\<open>Paginate(page, perPage).Execute\<close> on either
  adapter, once the count has succeeded, clamps a page below 1 to 1 and a page size below
  1 to 10, answers a meta record with \<open>TotalPages = \<lceil>total / perPage\<rceil>\<close>,
  \<open>HasNext = (page < TotalPages)\<close> and \<open>HasPrev = (page > 1)\<close>, and issues the bounded
  fetch with offset \<open>(page - 1) * perPage\<close> and limit \<open>perPage\<close>. The offset is the
  product in Go's 64-bit arithmetic; it is the exact product whenever that fits.
\<close>

theorem Paginate_Execute_meta:
  assumes "cnt q = Inr n" and "cntm (filter_q mq) = Inr n"
  shows "\<exists>m. spec_meta page perPage n m \<and>
     snd (GormPaginatedResult_Execute cnt fnd (GormQuery_Paginate q page perPage)) =
       (case fnd q (PerPage m) ((Page m - 1) * PerPage m) of
          Inl err \<Rightarrow> Inl (StoreError err) | Inr results \<Rightarrow> Inr (m, results)) \<and>
     snd (MongoPaginatedResult_Execute cntm drv (MongoQuery_Paginate mq page perPage)) =
       (case MongoQuery_Find drv (mq\<lparr>skip_q := (Page m - 1) * PerPage m, limit_q := PerPage m\<rparr>) of
          Inl err \<Rightarrow> Inl err | Inr results \<Rightarrow> Inr (m, results)) \<and>
     ((sint (Page m) - 1) * sint (PerPage m) < 2 ^ 63 \<longrightarrow>
        sint ((Page m - 1) * PerPage m) = (sint (Page m) - 1) * sint (PerPage m))"
proof (intro exI [of _ "page_meta page perPage n"] conjI impI)
  show "spec_meta page perPage n (page_meta page perPage n)"
    by (rule spec_meta_page_meta)
  show "snd (GormPaginatedResult_Execute cnt fnd (GormQuery_Paginate q page perPage)) =
       (case fnd q (PerPage (page_meta page perPage n))
              ((Page (page_meta page perPage n) - 1) * PerPage (page_meta page perPage n)) of
          Inl err \<Rightarrow> Inl (StoreError err) | Inr results \<Rightarrow> Inr (page_meta page perPage n, results))"
    using Gorm_Execute_eq [where cnt = cnt and q = q and n = n and fnd = fnd] assms(1)
    by (simp add: page_meta_def)
  show "snd (MongoPaginatedResult_Execute cntm drv (MongoQuery_Paginate mq page perPage)) =
       (case MongoQuery_Find drv
               (mq\<lparr>skip_q := (Page (page_meta page perPage n) - 1) * PerPage (page_meta page perPage n),
                   limit_q := PerPage (page_meta page perPage n)\<rparr>) of
          Inl err \<Rightarrow> Inl err | Inr results \<Rightarrow> Inr (page_meta page perPage n, results))"
    using Mongo_Execute_eq [where cnt = cntm and q = mq and n = n and drv = drv] assms(2)
    by (simp add: page_meta_def)
  assume "(sint (Page (page_meta page perPage n)) - 1) * sint (PerPage (page_meta page perPage n)) < 2 ^ 63"
  moreover have "1 \<le> sint (Page (page_meta page perPage n))"
    by (simp add: page_meta_def sint_clamp_page)
  moreover have "1 \<le> sint (PerPage (page_meta page perPage n))"
    by (simp add: page_meta_def sint_clamp_perPage)
  ultimately show "sint ((Page (page_meta page perPage n) - 1) * PerPage (page_meta page perPage n)) =
     (sint (Page (page_meta page perPage n)) - 1) * sint (PerPage (page_meta page perPage n))"
    by (intro exact_offset)
qed

lemma page_meta_57_20:
  "page_meta 1 20 57 = \<lparr>Page = 1, PerPage = 20, Total = 57, TotalPages = 3, HasNext = True, HasPrev = False\<rparr>"
  "page_meta 2 20 57 = \<lparr>Page = 2, PerPage = 20, Total = 57, TotalPages = 3, HasNext = True, HasPrev = True\<rparr>"
  "page_meta 3 20 57 = \<lparr>Page = 3, PerPage = 20, Total = 57, TotalPages = 3, HasNext = False, HasPrev = True\<rparr>"
  by (simp_all add: page_meta_def clamp_page_def clamp_perPage_def total_pages_def go_quo_def go_rem_def
      word_sless_alt signed_divide_int_def signed_modulo_int_def)

theorem Paginate_Execute_meta_witness:
  "\<exists>m. spec_meta 3 20 57 m \<and> TotalPages m = 3 \<and> \<not> HasNext m \<and> HasPrev m \<and>
     snd (GormPaginatedResult_Execute (\<lambda>_. Inr 57) (\<lambda>_ l off. Inr [l, off]) (GormQuery_Paginate () 3 20)) =
       Inr (m, [20, 40]) \<and>
     snd (MongoPaginatedResult_Execute (\<lambda>_. Inr 57) (\<lambda>_ opts. Inr [Limit opts, Skip opts])
            (MongoQuery_Paginate \<lparr>filter_q = Some [], sort_q = [], limit_q = 0, skip_q = 0, projection_q = None\<rparr> 3 20)) =
       Inr (m, [Some 20, Some 40]) \<and>
     sint ((Page m - 1) * PerPage m) = 40"
proof -
  let ?mq = "\<lparr>filter_q = Some [], sort_q = [], limit_q = 0, skip_q = 0, projection_q = None\<rparr>"
  from Paginate_Execute_meta [where cnt = "\<lambda>_::unit. Inr 57" and q = "()" and n = 57
      and cntm = "\<lambda>_. Inr 57" and mq = ?mq and page = 3 and perPage = 20
      and fnd = "\<lambda>_ l off. Inr [l, off]" and drv = "\<lambda>_ opts. Inr [Limit opts, Skip opts]"]
  obtain m where m: "spec_meta 3 20 57 m"
    and g: "snd (GormPaginatedResult_Execute (\<lambda>_::unit. Inr 57) (\<lambda>_ l off. Inr [l, off]) (GormQuery_Paginate () 3 20)) =
       Inr (m, [PerPage m, (Page m - 1) * PerPage m])"
    and d: "snd (MongoPaginatedResult_Execute (\<lambda>_. Inr 57) (\<lambda>_ opts. Inr [Limit opts, Skip opts])
            (MongoQuery_Paginate ?mq 3 20)) =
       (case MongoQuery_Find (\<lambda>_ opts. Inr [Limit opts, Skip opts])
              (?mq\<lparr>skip_q := (Page m - 1) * PerPage m, limit_q := PerPage m\<rparr>) of
          Inl err \<Rightarrow> Inl err | Inr results \<Rightarrow> Inr (m, results))"
    by auto
  have "snd (GormPaginatedResult_Execute (\<lambda>_::unit. Inr 57) (\<lambda>_ l off. Inr [l, off]) (GormQuery_Paginate () 3 20)) =
      Inr (page_meta 3 20 57, [20, 40])"
    using Gorm_Execute_eq [where cnt = "\<lambda>_::unit. Inr 57" and q = "()" and n = 57
        and fnd = "\<lambda>_ l off. Inr [l, off]" and page = 3 and perPage = 20]
    by (simp add: clamp_page_def clamp_perPage_def word_sless_alt)
  with g have e: "m = page_meta 3 20 57" by simp
  show ?thesis
    apply (rule exI [of _ m])
    using m d unfolding e page_meta_57_20
    by (simp add: MongoQuery_Find_def Let_def word_sless_alt GormPaginatedResult_Execute_def GormQuery_Paginate_def
         clamp_page_def clamp_perPage_def total_pages_def go_quo_def go_rem_def
         signed_divide_int_def signed_modulo_int_def)
qed

section \<open>Properties: the filter builder and the query-level update\<close>

lemma OrWhere_first:
  assumes "filter_q q = Some f" "f \<noteq> []" "map_of f ''$or'' = None"
  shows "MongoQuery_OrWhere field v q =
     Inr (q\<lparr>filter_q := Some [(''$and'', BDocs [f]), (''$or'', BDocs [[(field, v)]])]\<rparr>)"
  using assms by (simp add: MongoQuery_OrWhere_def Let_def map_get_def map_assign_def)

lemma matches_and_or:
  "matches [(''$and'', BDocs [f]), (''$or'', BDocs [[(field, v)]])] r \<longleftrightarrow>
     matches f r \<and> matches [(field, v)] r"
  by simp

text \<open>
  C1. On the document adapter the first \<^verbatim>\<open>OrWhere\<close> on a query with accumulated
  predicates does move them into one \<^verbatim>\<open>$and\<close> group, but the \<^verbatim>\<open>$or\<close> group it starts
  holds the new condition alone: the \<^verbatim>\<open>$and\<close> group is not an alternative of it. The two
  groups are keys of one filter document, so a document is selected only if it satisfies
  the earlier predicates and the new condition.
\<close>

theorem OrWhere_conjoins:
  assumes "filter_q q = Some f" "f \<noteq> []" "map_of f ''$or'' = None"
  shows "\<exists>g. MongoQuery_OrWhere field v q = Inr (q\<lparr>filter_q := Some g\<rparr>) \<and>
     g = [(''$and'', BDocs [f]), (''$or'', BDocs [[(field, v)]])] \<and>
     (\<forall>r. matches g r \<longleftrightarrow> matches f r \<and> matches [(field, v)] r)"
  using OrWhere_first [OF assms] matches_and_or by blast

theorem OrWhere_conjoins_witness:
  "MongoQuery_OrWhere ''role'' (BStr ''moderator'') (MongoRepository_Where ''role'' (BStr ''admin'')) =
     Inr (new_MongoQuery [(''$and'', BDocs [[(''role'', BStr ''admin'')]]),
                          (''$or'', BDocs [[(''role'', BStr ''moderator'')]])]) \<and>
   MongoQuery_Find (collection_Find users)
     (new_MongoQuery [(''$and'', BDocs [[(''role'', BStr ''admin'')]]),
                      (''$or'', BDocs [[(''role'', BStr ''moderator'')]])]) = Inr [] \<and>
   MongoQuery_OrQuery [[(''role'', BStr ''moderator'')]] (MongoRepository_Where ''role'' (BStr ''admin'')) =
     Inr (new_MongoQuery [(''$or'', BDocs [[(''role'', BStr ''admin'')], [(''role'', BStr ''moderator'')]])]) \<and>
   MongoQuery_Find (collection_Find users)
     (new_MongoQuery [(''$or'', BDocs [[(''role'', BStr ''admin'')], [(''role'', BStr ''moderator'')]])]) =
     Inr [[(''name'', BStr ''ann''), (''role'', BStr ''admin'')],
          [(''name'', BStr ''bob''), (''role'', BStr ''moderator'')]]"
proof -
  let ?q = "MongoRepository_Where ''role'' (BStr ''admin'')"
  have "filter_q ?q = Some [(''role'', BStr ''admin'')]"
    by (simp add: MongoRepository_Where_def new_MongoQuery_def)
  from OrWhere_conjoins [OF this, of "''role''" "BStr ''moderator''"]
  have "MongoQuery_OrWhere ''role'' (BStr ''moderator'') ?q =
     Inr (?q\<lparr>filter_q := Some [(''$and'', BDocs [[(''role'', BStr ''admin'')]]),
                                (''$or'', BDocs [[(''role'', BStr ''moderator'')]])]\<rparr>)"
    by simp
  then show ?thesis
    by (simp add: MongoRepository_Where_def new_MongoQuery_def MongoQuery_Find_def Let_def
        collection_Find_def users_def field_eq_def MongoQuery_OrQuery_def map_assign_def)
qed

lemma ReplaceAll_Nil: "ReplaceAll [] old new = []"
  by (simp add: ReplaceAll_def)

lemma ReplaceAll_Cons:
  "ReplaceAll (c # s) old new = (if c = old then new else [c]) @ ReplaceAll s old new"
  by (simp add: ReplaceAll_def)

lemma toBSONFilter_LIKE:
  "toBSONFilter fmtv field ''LIKE'' (BStr s) =
     [(field, BDoc [(''$regex'', BStr (ReplaceAll s CHR ''%'' ''.*'')), (''$options'', BStr ''i'')])]"
  by (simp add: toBSONFilter_def Sprintf_v_def)

lemma WhereLike_regex:
  assumes "filter_q q = Some f"
  shows "MongoQuery_WhereLike field pattern q =
     Inr (q\<lparr>filter_q := Some (AList.update field
            (BDoc [(''$regex'', BStr (ReplaceAll (ReplaceAll pattern CHR ''%'' ''.*'') CHR ''_'' ''.'')),
                   (''$options'', BStr ''i'')]) f)\<rparr>)"
  using assms by (simp add: MongoQuery_WhereLike_def map_assign_def Let_def)

text \<open>
  C8. The \<^verbatim>\<open>LIKE\<close> branch of \<^verbatim>\<open>toBSONFilter\<close>, which \<^verbatim>\<open>WhereOperator\<close> uses, replaces
  \<open>%\<close> by \<open>.*\<close> and sets the case-insensitive option, but leaves \<open>_\<close> in the pattern,
  where \<^verbatim>\<open>WhereLike\<close> replaces it by \<open>.\<close>.
\<close>

theorem toBSONFilter_LIKE_keeps_underscore:
  "toBSONFilter fmtv field ''LIKE'' (BStr ''a_c%'') =
     [(field, BDoc [(''$regex'', BStr ''a_c.*''), (''$options'', BStr ''i'')])] \<and>
   MongoQuery_WhereOperator fmtv field ''LIKE'' (BStr ''a_c%'') (new_MongoQuery []) =
     Inr (new_MongoQuery [(field, BDoc [(''$regex'', BStr ''a_c.*''), (''$options'', BStr ''i'')])]) \<and>
   MongoQuery_WhereLike field ''a_c%'' (new_MongoQuery []) =
     Inr (new_MongoQuery [(field, BDoc [(''$regex'', BStr ''a.c.*''), (''$options'', BStr ''i'')])])"
  by (simp add: toBSONFilter_def ReplaceAll_def Sprintf_v_def MongoQuery_WhereLike_def
      MongoQuery_WhereOperator_def new_MongoQuery_def map_assign_def)

lemma ConvertToAssignments_no_auto:
  assumes "list_all (\<lambda>field. \<not> AutoUpdateTime field) schema"
  shows "ConvertToAssignments schema now (Some d) = map_assignments schema d"
proof -
  have "filter (\<lambda>field. AutoUpdateTime field \<and> is_nil (map_of d (Name field)) \<and>
                         is_nil (map_of d (DBName field))) schema = []"
    using assms by (induction schema) simp_all
  then show ?thesis
    by (simp add: ConvertToAssignments_def auto_update_assignments_def)
qed

lemma ConvertToAssignments_auto:
  assumes "field \<in> set schema" "AutoUpdateTime field"
    and "map_of d (Name field) = None" "map_of d (DBName field) = None"
  shows "(DBName field, BDateTime now) \<in> set (ConvertToAssignments schema now (Some d))"
  using assms
  by (auto simp: ConvertToAssignments_def auto_update_assignments_def is_nil_def)

text \<open>
  C10. For every filter and every caller-supplied field map that is not \<^verbatim>\<open>nil\<close>, the
  document adapter's query-level \<^verbatim>\<open>Update\<close> issues one \<^verbatim>\<open>$set\<close> of the caller's
  fields with \<open>updated_at\<close> set to the current time, and the caller's map holds
  \<open>updated_at\<close> afterwards. The relational query-level \<^verbatim>\<open>Update\<close> leaves the map as it
  was and hands it to the ORM, which writes the caller's fields and, after them, every
  auto-update column of the model that the map does not give, set to the current time:
  the caller's fields alone for a model with no such column, and \<open>updated_at\<close> as well
  for a model that has it and a map that does not.
\<close>

theorem Update_sets_updated_at:
  "MongoQuery_Update updateMany now (Some d) q =
     (map_option StoreError
        (updateMany (filter_q q) [(''$set'', BDoc (AList.update ''updated_at'' (BDateTime now) d))]),
      Some (AList.update ''updated_at'' (BDateTime now) d)) \<and>
   map_of (AList.update ''updated_at'' (BDateTime now) d) = (map_of d)(''updated_at'' \<mapsto> BDateTime now) \<and>
   snd (GormQuery_Update (gorm_map_Updates exec schema now) data gq) = data \<and>
   fst (GormQuery_Update (gorm_map_Updates exec schema now) (Some d) gq) =
     (if map_assignments schema d @ auto_update_assignments schema now d = [] then None
      else map_option StoreError
             (exec gq (map_assignments schema d @ auto_update_assignments schema now d))) \<and>
   (list_all (\<lambda>field. \<not> AutoUpdateTime field) schema \<longrightarrow>
      auto_update_assignments schema now d = []) \<and>
   (\<forall>field \<in> set schema.
      AutoUpdateTime field \<and> map_of d (Name field) = None \<and> map_of d (DBName field) = None \<longrightarrow>
      (DBName field, BDateTime now) \<in> set (auto_update_assignments schema now d))"
proof (intro conjI)
  show "MongoQuery_Update updateMany now (Some d) q =
     (map_option StoreError
        (updateMany (filter_q q) [(''$set'', BDoc (AList.update ''updated_at'' (BDateTime now) d))]),
      Some (AList.update ''updated_at'' (BDateTime now) d))"
    by (simp add: MongoQuery_Update_def map_assign_def)
  show "map_of (AList.update ''updated_at'' (BDateTime now) d) = (map_of d)(''updated_at'' \<mapsto> BDateTime now)"
    by (simp add: update_conv')
  show "snd (GormQuery_Update (gorm_map_Updates exec schema now) data gq) = data"
    by (simp add: GormQuery_Update_def)
  show "fst (GormQuery_Update (gorm_map_Updates exec schema now) (Some d) gq) =
     (if map_assignments schema d @ auto_update_assignments schema now d = [] then None
      else map_option StoreError
             (exec gq (map_assignments schema d @ auto_update_assignments schema now d)))"
    by (cases "map_assignments schema d @ auto_update_assignments schema now d")
      (simp_all add: GormQuery_Update_def gorm_map_Updates_def ConvertToAssignments_def)
  show "list_all (\<lambda>field. \<not> AutoUpdateTime field) schema \<longrightarrow>
      auto_update_assignments schema now d = []"
    by (induction schema) (simp_all add: auto_update_assignments_def)
  show "\<forall>field \<in> set schema.
      AutoUpdateTime field \<and> map_of d (Name field) = None \<and> map_of d (DBName field) = None \<longrightarrow>
      (DBName field, BDateTime now) \<in> set (auto_update_assignments schema now d)"
    by (auto simp: auto_update_assignments_def is_nil_def)
qed

theorem Update_sets_updated_at_witness:
  "list_all (\<lambda>field. \<not> AutoUpdateTime field) [\<lparr>Name = ''Name'', DBName = ''name'', AutoUpdateTime = False\<rparr>] \<and>
   auto_update_assignments [\<lparr>Name = ''Name'', DBName = ''name'', AutoUpdateTime = False\<rparr>] 5
     [(''name'', BStr ''ann'')] = [] \<and>
   \<lparr>Name = ''UpdatedAt'', DBName = ''updated_at'', AutoUpdateTime = True\<rparr> \<in> set User_schema \<and>
   (''updated_at'', BDateTime 5) \<in> set (auto_update_assignments User_schema 5 [(''name'', BStr ''ann'')]) \<and>
   MongoQuery_Update (\<lambda>f u. None) 5 (Some [(''name'', BStr ''ann'')]) (new_MongoQuery []) =
     (None, Some [(''name'', BStr ''ann''), (''updated_at'', BDateTime 5)]) \<and>
   GormQuery_Update (gorm_map_Updates (\<lambda>q assignments. None) User_schema 5) (Some [(''name'', BStr ''ann'')]) () =
     (None, Some [(''name'', BStr ''ann'')])"
proof -
  let ?plain = "[\<lparr>Name = ''Name'', DBName = ''name'', AutoUpdateTime = False\<rparr>]"
  let ?d = "[(''name'', BStr ''ann'')]"
  let ?field = "\<lparr>Name = ''UpdatedAt'', DBName = ''updated_at'', AutoUpdateTime = True\<rparr>"
  let ?exec = "\<lambda>(q :: unit) (assignments :: bdoc). None :: store_error option"
  let ?um = "\<lambda>(f :: bdoc option) (u :: bdoc). None :: store_error option"
  have plain: "list_all (\<lambda>field. \<not> AutoUpdateTime field) ?plain" by simp
  have mem: "?field \<in> set User_schema" by (simp add: User_schema_def)
  have cond: "AutoUpdateTime ?field \<and> map_of ?d (Name ?field) = None \<and> map_of ?d (DBName ?field) = None"
    by simp
  note th1 = Update_sets_updated_at [of ?um 5 ?d "new_MongoQuery []" ?exec ?plain None "()"]
  note th2 = Update_sets_updated_at [of ?um 5 ?d "new_MongoQuery []" ?exec User_schema "Some ?d" "()"]
  have a1: "auto_update_assignments ?plain 5 ?d = []"
    using th1 [THEN conjunct2, THEN conjunct2, THEN conjunct2, THEN conjunct2, THEN conjunct1] plain
    by (rule mp)
  have a2: "(''updated_at'', BDateTime 5) \<in> set (auto_update_assignments User_schema 5 ?d)"
    using th2 [THEN conjunct2, THEN conjunct2, THEN conjunct2, THEN conjunct2, THEN conjunct2,
        rule_format, of ?field] mem cond
    by simp
  have m: "MongoQuery_Update ?um 5 (Some ?d) (new_MongoQuery []) =
      (None, Some [(''name'', BStr ''ann''), (''updated_at'', BDateTime 5)])"
    using th2 [THEN conjunct1] by simp
  have g: "GormQuery_Update (gorm_map_Updates ?exec User_schema 5) (Some ?d) () = (None, Some ?d)"
    using th2 [THEN conjunct2, THEN conjunct2, THEN conjunct1]
      th2 [THEN conjunct2, THEN conjunct2, THEN conjunct2, THEN conjunct1]
    by (simp add: prod_eq_iff)
  from plain a1 mem a2 m g show ?thesis by (intro conjI)
qed

text \<open>
  On a \<^verbatim>\<open>nil\<close> map the document adapter's \<^verbatim>\<open>Update\<close> panics before any write is
  issued. On the model \<^verbatim>\<open>User\<close> and a map that gives the name alone, the relational
  \<^verbatim>\<open>Update\<close> assigns to \<open>updated_at\<close> as well: a store that refuses every write to
  that column refuses the statement.
\<close>

theorem Update_counterexample:
  "MongoQuery_Update (\<lambda>f u. Some (Failure ''UpdateMany was called'')) 0 None (new_MongoQuery []) =
     (Some (Panic ''assignment to entry in nil map''), None) \<and>
   ConvertToAssignments User_schema 5 (Some [(''name'', BStr ''ann'')]) =
     [(''name'', BStr ''ann''), (''updated_at'', BDateTime 5)] \<and>
   GormQuery_Update (gorm_map_Updates (refuse_column ''updated_at'') User_schema 5)
       (Some [(''name'', BStr ''ann'')]) () =
     (Some (StoreError (Failure ''no write to updated_at'')), Some [(''name'', BStr ''ann'')])"
  by (simp add: MongoQuery_Update_def map_assign_def GormQuery_Update_def gorm_map_Updates_def
      ConvertToAssignments_def map_assignments_def auto_update_assignments_def LookUpField_def
      User_schema_def is_nil_def refuse_column_def)

section \<open>Properties: identifiers, update and delete by identifier\<close>

lemma hex_decode_all_hex:
  "hex_decode s = Some bs \<Longrightarrow> (\<forall>c \<in> set s. hex_digit c \<noteq> None)"
  by (induction s arbitrary: bs rule: hex_decode.induct) (auto split: option.splits)

lemma ObjectIDFromHex_Inr:
  "ObjectIDFromHex s = Inr oid \<Longrightarrow> length s = 24 \<and> (\<forall>c \<in> set s. hex_digit c \<noteq> None)"
  by (auto simp: ObjectIDFromHex_def split: if_splits option.splits dest: hex_decode_all_hex)

lemma toObjectID_malformed:
  assumes "length s \<noteq> 24 \<or> (\<exists>c \<in> set s. hex_digit c = None)"
  shows "\<exists>e. toObjectID (BStr s) = Inl e"
proof (cases "ObjectIDFromHex s")
  case (Inl e)
  then show ?thesis by (simp add: toObjectID_def)
next
  case (Inr oid)
  then show ?thesis using assms ObjectIDFromHex_Inr [OF Inr] by auto
qed

lemma MongoRepository_FindByID_malformed:
  assumes "length s \<noteq> 24 \<or> (\<exists>c \<in> set s. hex_digit c = None)"
  shows "MongoRepository_FindByID findOne (BStr s) = Inl ErrInvalidID"
  using toObjectID_malformed [OF assms] by (auto simp: MongoRepository_FindByID_def)

text \<open>
  C3. The relational adapter's \<^verbatim>\<open>FindByID\<close> hands the identifier to the ORM as it is and
  answers the record, \<^verbatim>\<open>ErrRecordNotFound\<close> or the ORM's own error: whatever the
  identifier and whatever the ORM answers, it never returns \<^verbatim>\<open>ErrInvalidID\<close>. For the
  identifier \<open>abc\<close>, which the store rejects, the caller receives the store's error.
\<close>

theorem GormRepository_FindByID_never_InvalidID:
  "GormRepository_FindByID orm_first ident \<noteq> Inl ErrInvalidID \<and>
   GormRepository_FindByID (\<lambda>k. Inl (Failure ''ERROR: column abc does not exist'')) ''abc'' =
     Inl (StoreError (Failure ''ERROR: column abc does not exist''))"
  by (simp add: GormRepository_FindByID_def split: sum.splits)

lemma GormRepository_Update_missing:
  assumes "orm_updates t ident data = ((None, 0), t')"
  shows "GormRepository_Update orm_updates t ident data = (Some ErrRecordNotFound, t')"
  using assms by (simp add: GormRepository_Update_def)

lemma GormRepository_Delete_missing:
  assumes "orm_delete t ident = ((None, 0), t')"
  shows "GormRepository_Delete orm_delete t ident = (Some ErrRecordNotFound, t')"
  using assms by (simp add: GormRepository_Delete_def)

lemma MongoRepository_Update_missing:
  assumes "toObjectID ident = Inr oid" "c oid = None" "rej c oid data = None"
  shows "MongoRepository_Update rej c ident data = (None, c)"
  using assms by (simp add: MongoRepository_Update_def collection_ReplaceOne_def)

lemma MongoRepository_Delete_missing:
  assumes "toObjectID ident = Inr oid" "c oid = None" "rej c [oid] = None"
  shows "MongoRepository_Delete rej c ident = (None, c)"
  using assms by (simp add: MongoRepository_Delete_def collection_DeleteOne_def)

lemma MongoRepository_Update_frame:
  assumes "MongoRepository_Update rej c ident data = (r, c')" "toObjectID ident \<noteq> Inr k"
  shows "c' k = c k"
  using assms
  by (auto simp: MongoRepository_Update_def collection_ReplaceOne_def split: sum.splits option.splits)

lemma MongoRepository_Delete_frame:
  assumes "MongoRepository_Delete rej c ident = (r, c')" "toObjectID ident \<noteq> Inr k"
  shows "c' k = c k"
  using assms
  by (auto simp: MongoRepository_Delete_def collection_DeleteOne_def split: sum.splits option.splits)

lemma toObjectID_examples:
  "toObjectID (BStr ''5f1d7f3e2a4b6c8d9e0f1a2b'') = Inr [95, 29, 127, 62, 42, 75, 108, 141, 158, 15, 26, 43]"
  "toObjectID (BStr ''5f1d7f3e2a4b6c8d9e0f1a2c'') = Inr [95, 29, 127, 62, 42, 75, 108, 141, 158, 15, 26, 44]"
  "toObjectID (BStr ''5f1d7f3e2a4b6c8d9e0f1a2d'') = Inr [95, 29, 127, 62, 42, 75, 108, 141, 158, 15, 26, 45]"
  "toObjectID (BStr ''zz'') = Inl (StoreError (Failure ''the provided hex string is not a valid ObjectID''))"
  by (simp_all add: toObjectID_def ObjectIDFromHex_def hex_digit_def)

text \<open>
  C4. The document adapter's \<^verbatim>\<open>Update\<close> and \<^verbatim>\<open>Delete\<close> drop the driver's result and
  return its error only, so they never return \<^verbatim>\<open>ErrRecordNotFound\<close>: for a well-formed
  identifier that no stored document has, both return \<^verbatim>\<open>nil\<close>.
\<close>

theorem MongoRepository_Update_Delete_never_NotFound:
  "fst (MongoRepository_Update rej c ident data) \<noteq> Some ErrRecordNotFound \<and>
   fst (MongoRepository_Delete rejd c ident) \<noteq> Some ErrRecordNotFound \<and>
   fst (MongoRepository_Update (\<lambda>c oid d. None) Map.empty (BStr ''5f1d7f3e2a4b6c8d9e0f1a2b'') (0::nat)) = None \<and>
   fst (MongoRepository_Delete (\<lambda>c oids. None) (Map.empty :: nat collection) (BStr ''5f1d7f3e2a4b6c8d9e0f1a2b'')) = None"
proof (intro conjI)
  show "fst (MongoRepository_Update rej c ident data) \<noteq> Some ErrRecordNotFound"
    by (auto simp: MongoRepository_Update_def split: sum.splits prod.splits)
  show "fst (MongoRepository_Delete rejd c ident) \<noteq> Some ErrRecordNotFound"
    by (auto simp: MongoRepository_Delete_def split: sum.splits prod.splits)
  show "fst (MongoRepository_Update (\<lambda>c oid d. None) Map.empty (BStr ''5f1d7f3e2a4b6c8d9e0f1a2b'') (0::nat)) = None"
    using MongoRepository_Update_missing [OF toObjectID_examples(1), of Map.empty "\<lambda>c oid d. None" "0::nat"]
    by simp
  show "fst (MongoRepository_Delete (\<lambda>c oids. None) (Map.empty :: nat collection) (BStr ''5f1d7f3e2a4b6c8d9e0f1a2b'')) = None"
    using MongoRepository_Delete_missing [OF toObjectID_examples(1), of "Map.empty :: nat collection" "\<lambda>c oids. None"]
    by simp
qed

section \<open>Properties: the relational batch update\<close>

lemma tx_loop_Cons:
  "tx_loop orm w ((k, d) # rest) =
     (case fst (fst (orm w k d)) of
        Some e \<Rightarrow> Inl e
      | None \<Rightarrow> tx_loop orm (apply_updates orm w [(k, d)]) rest)"
  by (cases "orm w k d") (auto split: option.splits)

lemma apply_updates_Cons:
  "apply_updates orm w (kv # rest) = apply_updates orm (apply_updates orm w [kv]) rest"
  by (cases kv) simp

lemma step_rejected_0: "step_rejected orm w (kv # rest) 0 = fst (fst (orm w (fst kv) (snd kv)))"
  by (simp add: step_rejected_def)

lemma step_rejected_Suc:
  "step_rejected orm w (kv # rest) (Suc i) = step_rejected orm (apply_updates orm w [kv]) rest i"
  by (cases kv) (simp add: step_rejected_def)

lemma tx_loop_Inr_iff:
  "tx_loop orm w kvs = Inr w' \<longleftrightarrow>
     (w' = apply_updates orm w kvs \<and> (\<forall>i<length kvs. step_rejected orm w kvs i = None))"
proof (induction kvs arbitrary: w)
  case Nil
  then show ?case by auto
next
  case (Cons kv kvs)
  obtain k d where kv: "kv = (k, d)" by (cases kv)
  show ?case
  proof (cases "fst (fst (orm w k d))")
    case None
    have "(\<forall>i<length (kv # kvs). step_rejected orm w (kv # kvs) i = None) \<longleftrightarrow>
          (\<forall>i<length kvs. step_rejected orm (apply_updates orm w [kv]) kvs i = None)"
      using None kv by (auto simp: All_less_Suc2 step_rejected_0 step_rejected_Suc simp del: apply_updates.simps)
    then show ?thesis
      using None kv Cons.IH [of "apply_updates orm w [kv]"] apply_updates_Cons [of orm w kv kvs]
      by (simp add: tx_loop_Cons del: apply_updates.simps tx_loop.simps)
  next
    case (Some e)
    then have "step_rejected orm w (kv # kvs) 0 \<noteq> None"
      using kv by (simp add: step_rejected_0)
    then have "\<not> (\<forall>i<length (kv # kvs). step_rejected orm w (kv # kvs) i = None)"
      by auto
    then show ?thesis using Some kv by (simp add: tx_loop_Cons del: apply_updates.simps tx_loop.simps)
  qed
qed

lemma tx_loop_first_failure:
  assumes "i < length kvs"
    and "\<forall>j<i. step_rejected orm w kvs j = None"
    and "step_rejected orm w kvs i = Some e"
  shows "tx_loop orm w kvs = Inl e"
  using assms
proof (induction kvs arbitrary: w i)
  case Nil
  then show ?case by simp
next
  case (Cons kv kvs)
  obtain k d where kv: "kv = (k, d)" by (cases kv)
  show ?case
  proof (cases i)
    case 0
    then show ?thesis
      using Cons.prems(3) kv by (simp add: tx_loop_Cons step_rejected_0 del: tx_loop.simps)
  next
    case (Suc i')
    have first: "fst (fst (orm w k d)) = None"
      using Cons.prems(2) Suc kv step_rejected_0 [of orm w kv kvs] by auto
    have "i' < length kvs" using Cons.prems(1) Suc by simp
    moreover have "\<forall>j<i'. step_rejected orm (apply_updates orm w [kv]) kvs j = None"
      using Cons.prems(2) Suc step_rejected_Suc [of orm w kv kvs] by auto
    moreover have "step_rejected orm (apply_updates orm w [kv]) kvs i' = Some e"
      using Cons.prems(3) Suc step_rejected_Suc [of orm w kv kvs] by simp
    ultimately have "tx_loop orm (apply_updates orm w [kv]) kvs = Inl e"
      by (rule Cons.IH)
    then show ?thesis
      using first kv by (simp add: tx_loop_Cons del: tx_loop.simps apply_updates.simps)
  qed
qed

lemma UpdateBatch_committed:
  assumes "length ids = length data"
    and "\<forall>i<length ids. step_rejected orm t (zip ids data) i = None"
    and "commit (apply_updates orm t (zip ids data)) = None"
  shows "GormRepository_UpdateBatch orm commit t ids data = (None, apply_updates orm t (zip ids data))"
proof -
  have "tx_loop orm t (zip ids data) = Inr (apply_updates orm t (zip ids data))"
    using assms(1,2) tx_loop_Inr_iff [of orm t "zip ids data" "apply_updates orm t (zip ids data)"]
    by simp
  then show ?thesis using assms(1,3) by (simp add: GormRepository_UpdateBatch_def)
qed

lemma UpdateBatch_commit_refused:
  assumes "length ids = length data"
    and "\<forall>i<length ids. step_rejected orm t (zip ids data) i = None"
    and "commit (apply_updates orm t (zip ids data)) = Some e"
  shows "GormRepository_UpdateBatch orm commit t ids data = (Some (StoreError e), t)"
proof -
  have "tx_loop orm t (zip ids data) = Inr (apply_updates orm t (zip ids data))"
    using assms(1,2) tx_loop_Inr_iff [of orm t "zip ids data" "apply_updates orm t (zip ids data)"]
    by simp
  then show ?thesis using assms(1,3) by (simp add: GormRepository_UpdateBatch_def)
qed

lemma UpdateBatch_rolled_back:
  assumes "length ids = length data"
    and "i < length ids"
    and "\<forall>j<i. step_rejected orm t (zip ids data) j = None"
    and "step_rejected orm t (zip ids data) i = Some e"
  shows "GormRepository_UpdateBatch orm commit t ids data = (Some (StoreError e), t)"
proof -
  have "tx_loop orm t (zip ids data) = Inl e"
    using assms by (intro tx_loop_first_failure [of i]) simp_all
  then show ?thesis using assms(1) by (simp add: GormRepository_UpdateBatch_def)
qed

lemma UpdateBatch_error_unchanged:
  assumes "length ids = length data"
  shows "((\<exists>i<length ids. step_rejected orm t (zip ids data) i \<noteq> None) \<longrightarrow>
            fst (GormRepository_UpdateBatch orm commit t ids data) \<noteq> None \<and>
            snd (GormRepository_UpdateBatch orm commit t ids data) = t) \<and>
         (fst (GormRepository_UpdateBatch orm commit t ids data) \<noteq> None \<longrightarrow>
            snd (GormRepository_UpdateBatch orm commit t ids data) = t) \<and>
         (fst (GormRepository_UpdateBatch orm commit t ids data) = None \<longrightarrow>
            (\<forall>i<length ids. step_rejected orm t (zip ids data) i = None) \<and>
            snd (GormRepository_UpdateBatch orm commit t ids data) =
              apply_updates orm t (zip ids data))"
proof (cases "tx_loop orm t (zip ids data)")
  case (Inl e)
  then have "\<not> (\<forall>i<length (zip ids data). step_rejected orm t (zip ids data) i = None)"
    using tx_loop_Inr_iff [of orm t "zip ids data"] by auto
  then show ?thesis using Inl assms by (simp add: GormRepository_UpdateBatch_def)
next
  case (Inr w)
  then have "w = apply_updates orm t (zip ids data)"
    and "\<forall>i<length (zip ids data). step_rejected orm t (zip ids data) i = None"
    using tx_loop_Inr_iff [of orm t "zip ids data" w] by auto
  then show ?thesis using Inr assms
    by (auto simp: GormRepository_UpdateBatch_def split: option.splits)
qed

text \<open>
  C5. For lists of identifiers and data of equal length, the relational adapter's
  \<^verbatim>\<open>UpdateBatch\<close> runs the per-identifier updates in one transaction. If any one
  update fails, the call returns an error and the stored table is unchanged: it returns
  the error of the first update that fails. Whenever the call returns an error the
  stored table is unchanged. It commits only when every update succeeded: when it
  returns \<^verbatim>\<open>nil\<close> no update has failed and the stored table holds all of them; and when
  no update fails it returns \<^verbatim>\<open>nil\<close> with all of them stored if the store accepts the
  commit, and the store's error with the table unchanged if the store refuses it. An
  update fails when its statement returns an error; a statement that matches no row
  returns none.
\<close>

theorem GormRepository_UpdateBatch_atomic:
  assumes "length ids = length data"
  shows "((\<exists>i<length ids. step_rejected orm t (zip ids data) i \<noteq> None) \<longrightarrow>
            fst (GormRepository_UpdateBatch orm commit t ids data) \<noteq> None \<and>
            snd (GormRepository_UpdateBatch orm commit t ids data) = t) \<and>
         (fst (GormRepository_UpdateBatch orm commit t ids data) \<noteq> None \<longrightarrow>
            snd (GormRepository_UpdateBatch orm commit t ids data) = t) \<and>
         (fst (GormRepository_UpdateBatch orm commit t ids data) = None \<longrightarrow>
            (\<forall>i<length ids. step_rejected orm t (zip ids data) i = None) \<and>
            snd (GormRepository_UpdateBatch orm commit t ids data) =
              apply_updates orm t (zip ids data)) \<and>
         ((\<forall>i<length ids. step_rejected orm t (zip ids data) i = None) \<and>
          commit (apply_updates orm t (zip ids data)) = None \<longrightarrow>
            GormRepository_UpdateBatch orm commit t ids data =
              (None, apply_updates orm t (zip ids data))) \<and>
         (\<forall>i<length ids. \<forall>e.
            (\<forall>j<i. step_rejected orm t (zip ids data) j = None) \<and>
            step_rejected orm t (zip ids data) i = Some e \<longrightarrow>
            GormRepository_UpdateBatch orm commit t ids data = (Some (StoreError e), t)) \<and>
         (\<forall>e. (\<forall>i<length ids. step_rejected orm t (zip ids data) i = None) \<and>
               commit (apply_updates orm t (zip ids data)) = Some e \<longrightarrow>
            GormRepository_UpdateBatch orm commit t ids data = (Some (StoreError e), t))"
proof -
  note first = UpdateBatch_error_unchanged [OF assms, of orm t commit]
  have committed: "(\<forall>i<length ids. step_rejected orm t (zip ids data) i = None) \<and>
          commit (apply_updates orm t (zip ids data)) = None \<longrightarrow>
            GormRepository_UpdateBatch orm commit t ids data =
              (None, apply_updates orm t (zip ids data))"
    using UpdateBatch_committed [OF assms] by blast
  have rolled_back: "\<forall>i<length ids. \<forall>e.
            (\<forall>j<i. step_rejected orm t (zip ids data) j = None) \<and>
            step_rejected orm t (zip ids data) i = Some e \<longrightarrow>
            GormRepository_UpdateBatch orm commit t ids data = (Some (StoreError e), t)"
    using UpdateBatch_rolled_back [OF assms] by blast
  have refused: "\<forall>e. (\<forall>i<length ids. step_rejected orm t (zip ids data) i = None) \<and>
               commit (apply_updates orm t (zip ids data)) = Some e \<longrightarrow>
            GormRepository_UpdateBatch orm commit t ids data = (Some (StoreError e), t)"
    using UpdateBatch_commit_refused [OF assms] by blast
  from first committed rolled_back refused show ?thesis by (intro conjI) blast+
qed

theorem GormRepository_UpdateBatch_atomic_witness:
  "length [1, 2, 3 :: nat] = length [11, 0, 31 :: nat] \<and>
   GormRepository_UpdateBatch checked_Updates (\<lambda>w. None) three_rows [1, 2, 3] [11, 0, 31] =
     (Some (StoreError (Failure ''constraint violation'')), three_rows) \<and>
   GormRepository_UpdateBatch checked_Updates (\<lambda>w. None) three_rows [1, 2, 3] [11, 21, 31] =
     (None, [1 \<mapsto> 11, 2 \<mapsto> 21, 3 \<mapsto> 31]) \<and>
   GormRepository_UpdateBatch checked_Updates (\<lambda>w. None) three_rows [1, 9, 3] [11, 21, 31] =
     (None, [1 \<mapsto> 11, 2 \<mapsto> 20, 3 \<mapsto> 31]) \<and>
   GormRepository_UpdateBatch checked_Updates (\<lambda>w. Some (Failure ''commit refused'')) three_rows
       [1, 2, 3] [11, 21, 31] =
     (Some (StoreError (Failure ''commit refused'')), three_rows)"
proof -
  let ?none = "\<lambda>w :: (nat, nat) table. None :: store_error option"
  let ?refuse = "\<lambda>w :: (nat, nat) table. Some (Failure ''commit refused'')"
  have len: "length [1, 2, 3 :: nat] = length [11, 0, 31 :: nat]"
    and len2: "length [1, 2, 3 :: nat] = length [11, 21, 31 :: nat]"
    and len3: "length [1, 9, 3 :: nat] = length [11, 21, 31 :: nat]"
    by simp_all
  have bad: "(\<forall>j<1. step_rejected checked_Updates three_rows (zip [1, 2, 3] [11, 0, 31]) j = None) \<and>
      step_rejected checked_Updates three_rows (zip [1, 2, 3] [11, 0, 31]) 1 =
        Some (Failure ''constraint violation'')"
    by (simp add: step_rejected_def checked_Updates_def three_rows_def)
  have "(1 :: nat) < length [1, 2, 3 :: nat]" by simp
  with GormRepository_UpdateBatch_atomic [OF len, of checked_Updates three_rows ?none,
      THEN conjunct2, THEN conjunct2, THEN conjunct2, THEN conjunct2, THEN conjunct1] bad
  have failing: "GormRepository_UpdateBatch checked_Updates ?none three_rows [1, 2, 3] [11, 0, 31] =
      (Some (StoreError (Failure ''constraint violation'')), three_rows)"
    by blast
  have all_ok: "\<forall>i<length [1, 2, 3 :: nat].
      step_rejected checked_Updates three_rows (zip [1, 2, 3] [11, 21, 31]) i = None"
    by (simp add: All_less_Suc step_rejected_def checked_Updates_def three_rows_def)
  have stored: "apply_updates checked_Updates three_rows (zip [1, 2, 3] [11, 21, 31]) =
      [1 \<mapsto> 11, 2 \<mapsto> 21, 3 \<mapsto> 31]"
    by (auto simp: checked_Updates_def three_rows_def)
  from GormRepository_UpdateBatch_atomic [OF len2, of checked_Updates three_rows ?none,
      THEN conjunct2, THEN conjunct2, THEN conjunct2, THEN conjunct1] all_ok stored
  have committed: "GormRepository_UpdateBatch checked_Updates ?none three_rows [1, 2, 3] [11, 21, 31] =
      (None, [1 \<mapsto> 11, 2 \<mapsto> 21, 3 \<mapsto> 31])"
    by simp
  have all_ok3: "\<forall>i<length [1, 9, 3 :: nat].
      step_rejected checked_Updates three_rows (zip [1, 9, 3] [11, 21, 31]) i = None"
    by (simp add: All_less_Suc step_rejected_def checked_Updates_def three_rows_def)
  have stored3: "apply_updates checked_Updates three_rows (zip [1, 9, 3] [11, 21, 31]) =
      [1 \<mapsto> 11, 2 \<mapsto> 20, 3 \<mapsto> 31]"
    by (auto simp: checked_Updates_def three_rows_def)
  from GormRepository_UpdateBatch_atomic [OF len3, of checked_Updates three_rows ?none,
      THEN conjunct2, THEN conjunct2, THEN conjunct2, THEN conjunct1] all_ok3 stored3
  have missing: "GormRepository_UpdateBatch checked_Updates ?none three_rows [1, 9, 3] [11, 21, 31] =
      (None, [1 \<mapsto> 11, 2 \<mapsto> 20, 3 \<mapsto> 31])"
    by simp
  from GormRepository_UpdateBatch_atomic [OF len2, of checked_Updates three_rows ?refuse,
      THEN conjunct2, THEN conjunct2, THEN conjunct2, THEN conjunct2, THEN conjunct2] all_ok stored
  have refused: "GormRepository_UpdateBatch checked_Updates ?refuse three_rows [1, 2, 3] [11, 21, 31] =
      (Some (StoreError (Failure ''commit refused'')), three_rows)"
    by simp
  from len failing committed missing refused show ?thesis by (intro conjI)
qed

section \<open>Properties: the document batch operations\<close>

lemma apply_replaces_Cons:
  "apply_replaces c (kv # rest) = apply_replaces (apply_replaces c [kv]) rest"
  by (cases kv) simp

lemma step_error_0:
  "step_error rej c ((ident, d) # rest) 0 =
     (case toObjectID ident of Inl err \<Rightarrow> Some ErrInvalidID | Inr oid \<Rightarrow> map_option StoreError (rej c oid d))"
  by (simp add: step_error_def split: sum.splits)

lemma step_error_Suc:
  "step_error rej c (kv # rest) (Suc i) = step_error rej (apply_replaces c [kv]) rest i"
  by (cases kv) (simp add: step_error_def split: sum.splits)

lemma UpdateBatch_loop_Cons:
  "UpdateBatch_loop rej c ((ident, d) # rest) =
     (case step_error rej c ((ident, d) # rest) 0 of
        Some e \<Rightarrow> (Some e, c)
      | None \<Rightarrow> UpdateBatch_loop rej (apply_replaces c [(ident, d)]) rest)"
  by (simp add: step_error_0 collection_ReplaceOne_def split: sum.splits option.splits)

lemma UpdateBatch_loop_first_failure:
  assumes "i < length kvs"
    and "\<forall>j<i. step_error rej c kvs j = None"
    and "step_error rej c kvs i = Some e"
  shows "UpdateBatch_loop rej c kvs = (Some e, apply_replaces c (take i kvs))"
  using assms
proof (induction kvs arbitrary: c i)
  case Nil
  then show ?case by simp
next
  case (Cons kv kvs)
  obtain ident d where kv: "kv = (ident, d)" by (cases kv)
  show ?case
  proof (cases i)
    case 0
    then show ?thesis
      using Cons.prems kv by (simp add: UpdateBatch_loop_Cons del: UpdateBatch_loop.simps)
  next
    case (Suc i')
    have first: "step_error rej c (kv # kvs) 0 = None"
      using Cons.prems(2) Suc by simp
    have "i' < length kvs" using Cons.prems(1) Suc by simp
    moreover have "\<forall>j<i'. step_error rej (apply_replaces c [kv]) kvs j = None"
      using Cons.prems(2) Suc step_error_Suc [of rej c kv kvs] by auto
    moreover have "step_error rej (apply_replaces c [kv]) kvs i' = Some e"
      using Cons.prems(3) Suc step_error_Suc [of rej c kv kvs] by simp
    ultimately have "UpdateBatch_loop rej (apply_replaces c [kv]) kvs =
        (Some e, apply_replaces (apply_replaces c [kv]) (take i' kvs))"
      by (rule Cons.IH)
    then show ?thesis
      using first kv Suc apply_replaces_Cons [of c kv "take i' kvs"]
      by (simp add: UpdateBatch_loop_Cons del: UpdateBatch_loop.simps apply_replaces.simps)
  qed
qed

lemma UpdateBatch_loop_no_failure:
  assumes "\<forall>j<length kvs. step_error rej c kvs j = None"
  shows "UpdateBatch_loop rej c kvs = (None, apply_replaces c kvs)"
  using assms
proof (induction kvs arbitrary: c)
  case Nil
  then show ?case by simp
next
  case (Cons kv kvs)
  obtain ident d where kv: "kv = (ident, d)" by (cases kv)
  have first: "step_error rej c (kv # kvs) 0 = None"
    using Cons.prems by auto
  have "\<forall>j<length kvs. step_error rej (apply_replaces c [kv]) kvs j = None"
    using Cons.prems step_error_Suc [of rej c kv kvs] by auto
  then have "UpdateBatch_loop rej (apply_replaces c [kv]) kvs =
      (None, apply_replaces (apply_replaces c [kv]) kvs)"
    by (rule Cons.IH)
  then show ?case
    using first kv apply_replaces_Cons [of c kv kvs]
    by (simp add: UpdateBatch_loop_Cons del: UpdateBatch_loop.simps apply_replaces.simps)
qed

lemma toObjectIDs_Inl:
  "toObjectIDs ids = Inl e \<longleftrightarrow> e = ErrInvalidID \<and> (\<exists>ident \<in> set ids. \<exists>err. toObjectID ident = Inl err)"
  by (induction ids) (auto split: sum.splits)

lemma toObjectIDs_Inr:
  "toObjectIDs ids = Inr oids \<longleftrightarrow> map toObjectID ids = map Inr oids"
proof (induction ids arbitrary: oids)
  case Nil
  then show ?case by auto
next
  case step: (Cons a ids)
  show ?case
  proof (cases oids)
    case Nil
    then show ?thesis by (simp split: sum.splits)
  next
    case (Cons z zs)
    have "toObjectIDs (a # ids) = Inr (z # zs) \<longleftrightarrow> toObjectID a = Inr z \<and> toObjectIDs ids = Inr zs"
      by (auto split: sum.splits)
    then show ?thesis using Cons step.IH [of zs] by simp
  qed
qed

lemma DeleteBatch_malformed:
  assumes "ident \<in> set ids" "toObjectID ident = Inl err"
  shows "MongoRepository_DeleteBatch deleteMany c ids = (Some ErrInvalidID, c)"
proof -
  have "toObjectIDs ids = Inl ErrInvalidID"
    using assms toObjectIDs_Inl [of ids ErrInvalidID] by blast
  then show ?thesis by (simp add: MongoRepository_DeleteBatch_def)
qed

lemma DeleteBatch_well_formed:
  assumes "map toObjectID ids = map Inr oids"
  shows "MongoRepository_DeleteBatch deleteMany c ids =
     (map_option StoreError (fst (deleteMany c oids)), snd (deleteMany c oids))"
proof -
  have "toObjectIDs ids = Inr oids" using assms by (simp add: toObjectIDs_Inr)
  then show ?thesis
    by (simp add: MongoRepository_DeleteBatch_def split: prod.splits)
qed

text \<open>
  C6. For lists of identifiers and data of equal length, the document adapter's
  \<^verbatim>\<open>UpdateBatch\<close> processes the identifiers in order with no enclosing transaction: if
  step \<open>i\<close> is the first to fail, the call returns that step's error and the collection
  holds exactly the replacements of the steps before it; if no step fails it returns
  \<^verbatim>\<open>nil\<close> and the collection holds them all. \<^verbatim>\<open>DeleteBatch\<close> does not work step by
  step: it converts every identifier first and returns \<^verbatim>\<open>ErrInvalidID\<close> with nothing
  deleted if one is malformed; otherwise it hands all of them to one delete call and
  returns that call's error, the collection being as that call left it.
\<close>

theorem MongoRepository_batches:
  assumes "length ids = length data"
  shows "(\<forall>i<length ids. \<forall>e.
            (\<forall>j<i. step_error rej c (zip ids data) j = None) \<and>
            step_error rej c (zip ids data) i = Some e \<longrightarrow>
            MongoRepository_UpdateBatch rej c ids data =
              (Some e, apply_replaces c (take i (zip ids data)))) \<and>
         ((\<forall>j<length ids. step_error rej c (zip ids data) j = None) \<longrightarrow>
            MongoRepository_UpdateBatch rej c ids data = (None, apply_replaces c (zip ids data))) \<and>
         ((\<exists>ident \<in> set ids. \<exists>err. toObjectID ident = Inl err) \<longrightarrow>
            MongoRepository_DeleteBatch deleteMany c ids = (Some ErrInvalidID, c)) \<and>
         (\<forall>oids. map toObjectID ids = map Inr oids \<longrightarrow>
            MongoRepository_DeleteBatch deleteMany c ids =
              (map_option StoreError (fst (deleteMany c oids)), snd (deleteMany c oids)))"
proof (intro conjI allI impI)
  fix i e
  assume i: "i < length ids"
    and "(\<forall>j<i. step_error rej c (zip ids data) j = None) \<and> step_error rej c (zip ids data) i = Some e"
  then have "UpdateBatch_loop rej c (zip ids data) = (Some e, apply_replaces c (take i (zip ids data)))"
    using assms by (intro UpdateBatch_loop_first_failure) simp_all
  then show "MongoRepository_UpdateBatch rej c ids data = (Some e, apply_replaces c (take i (zip ids data)))"
    using assms by (simp add: MongoRepository_UpdateBatch_def)
next
  assume "\<forall>j<length ids. step_error rej c (zip ids data) j = None"
  then have "UpdateBatch_loop rej c (zip ids data) = (None, apply_replaces c (zip ids data))"
    using assms by (intro UpdateBatch_loop_no_failure) simp
  then show "MongoRepository_UpdateBatch rej c ids data = (None, apply_replaces c (zip ids data))"
    using assms by (simp add: MongoRepository_UpdateBatch_def)
next
  assume "\<exists>ident \<in> set ids. \<exists>err. toObjectID ident = Inl err"
  then show "MongoRepository_DeleteBatch deleteMany c ids = (Some ErrInvalidID, c)"
    using DeleteBatch_malformed by blast
next
  fix oids
  assume "map toObjectID ids = map Inr oids"
  then show "MongoRepository_DeleteBatch deleteMany c ids =
       (map_option StoreError (fst (deleteMany c oids)), snd (deleteMany c oids))"
    by (rule DeleteBatch_well_formed)
qed

theorem MongoRepository_batches_witness:
  "fst (MongoRepository_UpdateBatch reject_second three_docs three_ids [11, 21, 31]) =
     Some (StoreError (Failure ''write error'')) \<and>
   snd (MongoRepository_UpdateBatch reject_second three_docs three_ids [11, 21, 31])
     [95, 29, 127, 62, 42, 75, 108, 141, 158, 15, 26, 43] = Some 11 \<and>
   snd (MongoRepository_UpdateBatch reject_second three_docs three_ids [11, 21, 31])
     [95, 29, 127, 62, 42, 75, 108, 141, 158, 15, 26, 44] = Some 20 \<and>
   snd (MongoRepository_UpdateBatch reject_second three_docs three_ids [11, 21, 31])
     [95, 29, 127, 62, 42, 75, 108, 141, 158, 15, 26, 45] = Some 30 \<and>
   fst (MongoRepository_UpdateBatch (\<lambda>c oid d. None) three_docs three_ids [11, 21, 31]) = None \<and>
   snd (MongoRepository_UpdateBatch (\<lambda>c oid d. None) three_docs three_ids [11, 21, 31])
     [95, 29, 127, 62, 42, 75, 108, 141, 158, 15, 26, 45] = Some 31 \<and>
   MongoRepository_DeleteBatch delete_all three_docs (three_ids @ [BStr ''zz'']) =
     (Some ErrInvalidID, three_docs) \<and>
   fst (MongoRepository_DeleteBatch delete_all three_docs three_ids) = None \<and>
   snd (MongoRepository_DeleteBatch delete_all three_docs three_ids)
     [95, 29, 127, 62, 42, 75, 108, 141, 158, 15, 26, 43] = None \<and>
   fst (MongoRepository_DeleteBatch delete_interrupted three_docs three_ids) =
     Some (StoreError (Failure ''interrupted'')) \<and>
   snd (MongoRepository_DeleteBatch delete_interrupted three_docs three_ids)
     [95, 29, 127, 62, 42, 75, 108, 141, 158, 15, 26, 43] = None \<and>
   snd (MongoRepository_DeleteBatch delete_interrupted three_docs three_ids)
     [95, 29, 127, 62, 42, 75, 108, 141, 158, 15, 26, 44] = Some 20"
proof -
  let ?kvs = "zip three_ids [11, 21, 31 :: nat]"
  let ?none = "\<lambda>(c :: nat collection) (oid :: ObjectID) (d :: nat). None :: store_error option"
  let ?oids = "[[95, 29, 127, 62, 42, 75, 108, 141, 158, 15, 26, 43],
               [95, 29, 127, 62, 42, 75, 108, 141, 158, 15, 26, 44],
               [95, 29, 127, 62, 42, 75, 108, 141, 158, 15, 26, 45]] :: ObjectID list"
  have len: "length three_ids = length [11, 21, 31 :: nat]" by (simp add: three_ids_def)
  have s0: "step_error reject_second three_docs ?kvs 0 = None"
    by (simp add: step_error_def three_ids_def toObjectID_examples reject_second_def)
  have s1: "step_error reject_second three_docs ?kvs 1 = Some (StoreError (Failure ''write error''))"
    by (simp add: step_error_def three_ids_def toObjectID_examples reject_second_def)
  have pre: "(\<forall>j<1. step_error reject_second three_docs ?kvs j = None) \<and>
      step_error reject_second three_docs ?kvs 1 = Some (StoreError (Failure ''write error''))"
    using s0 s1 by simp
  have "1 < length three_ids" by (simp add: three_ids_def)
  with MongoRepository_batches [OF len, of reject_second three_docs delete_all, THEN conjunct1] pre
  have u: "MongoRepository_UpdateBatch reject_second three_docs three_ids [11, 21, 31] =
      (Some (StoreError (Failure ''write error'')), apply_replaces three_docs (take 1 ?kvs))"
    by blast
  have ok_steps: "\<forall>j<length three_ids. step_error ?none three_docs ?kvs j = None"
    by (simp add: All_less_Suc step_error_def three_ids_def toObjectID_examples)
  from MongoRepository_batches [OF len, of ?none three_docs delete_all, THEN conjunct2, THEN conjunct1] ok_steps
  have u2: "MongoRepository_UpdateBatch ?none three_docs three_ids [11, 21, 31] =
      (None, apply_replaces three_docs ?kvs)"
    by blast
  have bad: "\<exists>ident \<in> set (three_ids @ [BStr ''zz'']). \<exists>err. toObjectID ident = Inl err"
    by (simp add: toObjectID_examples)
  have len4: "length (three_ids @ [BStr ''zz'']) = length [11, 21, 31, 41 :: nat]"
    by (simp add: three_ids_def)
  from MongoRepository_batches [OF len4, of reject_second three_docs delete_all,
      THEN conjunct2, THEN conjunct2, THEN conjunct1] bad
  have d1: "MongoRepository_DeleteBatch delete_all three_docs (three_ids @ [BStr ''zz'']) =
      (Some ErrInvalidID, three_docs)"
    by blast
  have ok: "map toObjectID three_ids = map Inr ?oids"
    by (simp add: three_ids_def toObjectID_examples)
  from MongoRepository_batches [OF len, of reject_second three_docs delete_all,
      THEN conjunct2, THEN conjunct2, THEN conjunct2] ok
  have d2: "MongoRepository_DeleteBatch delete_all three_docs three_ids =
      (map_option StoreError (fst (delete_all three_docs ?oids)), snd (delete_all three_docs ?oids))"
    by blast
  from MongoRepository_batches [OF len, of reject_second three_docs delete_interrupted,
      THEN conjunct2, THEN conjunct2, THEN conjunct2] ok
  have d3: "MongoRepository_DeleteBatch delete_interrupted three_docs three_ids =
      (map_option StoreError (fst (delete_interrupted three_docs ?oids)),
       snd (delete_interrupted three_docs ?oids))"
    by blast
  show ?thesis
    unfolding u u2 d1 d2 d3
    by (simp add: three_ids_def three_docs_def toObjectID_examples delete_all_def delete_interrupted_def)
qed

text \<open>
  \<^verbatim>\<open>DeleteBatch\<close> with a stored first identifier and a malformed second one: the call
  fails and the first document is still stored, whatever the store would have done.
\<close>

theorem DeleteBatch_counterexample:
  "fst (MongoRepository_DeleteBatch delete_all three_docs
          [BStr ''5f1d7f3e2a4b6c8d9e0f1a2b'', BStr ''zz'']) = Some ErrInvalidID \<and>
   snd (MongoRepository_DeleteBatch delete_all three_docs
          [BStr ''5f1d7f3e2a4b6c8d9e0f1a2b'', BStr ''zz''])
     [95, 29, 127, 62, 42, 75, 108, 141, 158, 15, 26, 43] = Some 10"
  by (simp add: MongoRepository_DeleteBatch_def toObjectID_examples three_docs_def)

section \<open>Properties: increment and decrement\<close>

lemma sint_MinInt: "sint MinInt = - (2 ^ 63)"
  by (simp add: MinInt_def)

lemma sint_minus:
  fixes v :: go_int
  assumes "v \<noteq> MinInt"
  shows "sint (- v) = - sint v"
proof -
  have "sint v \<noteq> - (2 ^ 63)"
  proof
    assume "sint v = - (2 ^ 63)"
    then have "sint v = sint MinInt" by (simp add: sint_MinInt)
    then have "v = MinInt" by (simp add: word_eq_iff_signed [where ?'a = int])
    then show False using assms by simp
  qed
  then have "- (2 ^ 63) \<le> - sint v" "- sint v < 2 ^ 63"
    using sint_bounds64 [of v] by linarith+
  then have "signed_take_bit 63 (- sint v) = - sint v"
    by (rule signed_take_bit_int_eq_self)
  then show ?thesis by (simp add: sint_word_ariths word_size)
qed

lemma lost_bits_0: "a < 2 ^ 53 \<Longrightarrow> lost_bits a = 0"
  by (simp add: lost_bits.simps)

lemma lost_bits_Suc: "2 ^ 53 \<le> a \<Longrightarrow> lost_bits a = Suc (lost_bits (a div 2))"
  by (subst lost_bits.simps) simp

lemma lost_bits_examples:
  "lost_bits (2 ^ 63 - 1) = 10"
  "lost_bits (2 ^ 63 + 1) = 11"
  by (simp_all add: lost_bits_0 lost_bits_Suc)

lemma round_double_examples:
  "round_double 1 = 1"
  "round_double (- 1) = - 1"
  "round_double (2 ^ 63 - 1) = 2 ^ 63"
  "round_double (2 ^ 63 + 1) = 2 ^ 63"
  using lost_bits_examples by (simp_all add: round_double_def Let_def lost_bits_0)

lemma sqlite_add_examples:
  "sqlite_add (SqlInteger (2 ^ 63 - 1)) 1 = Inr (SqlReal (2 ^ 63))"
  "sqlite_add (SqlReal (2 ^ 63)) (- 1) = Inr (SqlReal (2 ^ 63))"
proof -
  have "sqlite_add (SqlInteger (2 ^ 63 - 1)) 1 =
      Inr (integer_affinity (round_double (round_double (2 ^ 63 - 1) + round_double 1)))"
    by (simp add: sqlite_add_def)
  also have "\<dots> = Inr (integer_affinity (round_double (2 ^ 63 + 1)))"
    by (simp only: round_double_examples)
  also have "\<dots> = Inr (integer_affinity (2 ^ 63))"
    by (simp only: round_double_examples)
  finally show "sqlite_add (SqlInteger (2 ^ 63 - 1)) 1 = Inr (SqlReal (2 ^ 63))"
    by (simp add: integer_affinity_def)
  have "sqlite_add (SqlReal (2 ^ 63)) (- 1) =
      Inr (integer_affinity (round_double (2 ^ 63 + round_double (- 1))))"
    by (simp add: sqlite_add_def)
  also have "(2 :: int) ^ 63 + round_double (- 1) = 2 ^ 63 - 1"
    by (simp add: round_double_examples(2))
  also have "Inr (integer_affinity (round_double (2 ^ 63 - 1))) = Inr (integer_affinity (2 ^ 63))"
    by (simp only: round_double_examples)
  finally show "sqlite_add (SqlReal (2 ^ 63)) (- 1) = Inr (SqlReal (2 ^ 63))"
    by (simp add: integer_affinity_def)
qed

lemma Gorm_Decrement_is_Increment_neg:
  assumes "v \<noteq> MinInt"
  shows "GormRepository_Decrement arith rej t ident field v =
         GormRepository_Increment arith rej t ident field (- v)"
proof -
  have "expr_delta (ExprMinus v) = expr_delta (ExprPlus (- v))"
    using sint_minus [OF assms] by (simp add: expr_delta_def)
  then have "gorm_UpdateColumn arith rej t ident field (ExprMinus v) =
             gorm_UpdateColumn arith rej t ident field (ExprPlus (- v))"
    unfolding gorm_UpdateColumn_def by (simp only:)
  then show ?thesis
    by (simp only: GormRepository_Decrement_def GormRepository_Increment_def)
qed

lemma Gorm_Increment_stores:
  assumes "t ident = Some row" "rej t ident field = None" "arith (row field) (sint v) = Inr y"
  shows "GormRepository_Increment arith rej t ident field v = (None, t(ident \<mapsto> row(field := y)))"
  using assms by (simp add: GormRepository_Increment_def gorm_UpdateColumn_def expr_delta_def)

lemma Gorm_Decrement_stores:
  assumes "t ident = Some row" "rej t ident field = None" "arith (row field) (- sint v) = Inr y"
  shows "GormRepository_Decrement arith rej t ident field v = (None, t(ident \<mapsto> row(field := y)))"
  using assms by (simp add: GormRepository_Decrement_def gorm_UpdateColumn_def expr_delta_def)

lemma Gorm_round_trip:
  assumes "t ident = Some row"
    and "rej t ident field = None"
    and "rej (t(ident \<mapsto> row(field := y))) ident field = None"
    and "arith (row field) (sint v) = Inr y"
    and "arith y (- sint v) = Inr (row field)"
  shows "GormRepository_Increment arith rej t ident field v = (None, t(ident \<mapsto> row(field := y))) \<and>
         GormRepository_Decrement arith rej (t(ident \<mapsto> row(field := y))) ident field v = (None, t)"
proof -
  have inc: "GormRepository_Increment arith rej t ident field v = (None, t(ident \<mapsto> row(field := y)))"
    using assms(1,2,4) by (rule Gorm_Increment_stores)
  have "GormRepository_Decrement arith rej (t(ident \<mapsto> row(field := y))) ident field v =
      (None, (t(ident \<mapsto> row(field := y)))(ident \<mapsto> (row(field := y))(field := row field)))"
    using assms(3,5) by (intro Gorm_Decrement_stores) simp_all
  moreover have "(t(ident \<mapsto> row(field := y)))(ident \<mapsto> (row(field := y))(field := row field)) = t"
    using assms(1) by (simp add: fun_upd_idem)
  ultimately show ?thesis using inc by simp
qed

lemma Mongo_Increment_stores:
  assumes "toObjectID ident = Inr oid" "c oid = Some doc" "doc field = Some x"
    and "rej c oid field = None" "arith x (sint v) = Inr y"
  shows "MongoRepository_Increment arith new rej c ident field v = (None, c(oid \<mapsto> doc(field \<mapsto> y)))"
  using assms by (simp add: MongoRepository_Increment_def collection_UpdateOne_inc_def)

lemma Mongo_round_trip:
  assumes "v \<noteq> MinInt"
    and "toObjectID ident = Inr oid" "c oid = Some doc" "doc field = Some x"
    and "rej c oid field = None"
    and "rej (c(oid \<mapsto> doc(field \<mapsto> y))) oid field = None"
    and "arith x (sint v) = Inr y"
    and "arith y (- sint v) = Inr x"
  shows "MongoRepository_Increment arith new rej c ident field v = (None, c(oid \<mapsto> doc(field \<mapsto> y))) \<and>
         MongoRepository_Decrement arith new rej (c(oid \<mapsto> doc(field \<mapsto> y))) ident field v = (None, c)"
proof -
  have inc: "MongoRepository_Increment arith new rej c ident field v = (None, c(oid \<mapsto> doc(field \<mapsto> y)))"
    using assms(2,3,4,5,7) by (rule Mongo_Increment_stores)
  have "arith y (sint (- v)) = Inr x" using assms(8) sint_minus [OF assms(1)] by simp
  then have "MongoRepository_Increment arith new rej (c(oid \<mapsto> doc(field \<mapsto> y))) ident field (- v) =
      (None, (c(oid \<mapsto> doc(field \<mapsto> y)))(oid \<mapsto> (doc(field \<mapsto> y))(field \<mapsto> x)))"
    using assms(2,6) by (intro Mongo_Increment_stores) simp_all
  moreover have "(c(oid \<mapsto> doc(field \<mapsto> y)))(oid \<mapsto> (doc(field \<mapsto> y))(field \<mapsto> x)) = c"
    using assms(3,4) by (simp add: fun_upd_idem)
  ultimately show ?thesis using inc by (simp add: MongoRepository_Decrement_def)
qed

text \<open>
  C7. For every identifier, field and delta, \<^verbatim>\<open>Decrement(id, field, delta)\<close> has the
  same effect as \<^verbatim>\<open>Increment(id, field, -delta)\<close> on the document adapter, and on the
  relational adapter when delta is not the least \<^verbatim>\<open>int\<close>, whatever the store's
  arithmetic. An \<^verbatim>\<open>Increment\<close> followed by a \<^verbatim>\<open>Decrement\<close> of the same delta, on a
  record that has the field, leaves the store as it was, both calls returning \<^verbatim>\<open>nil\<close>,
  when the store refuses neither call and its arithmetic is exact on both sums: it adds
  the delta to the number in the field, and subtracting the delta from that sum gives the
  number back. On the document adapter the delta must not be the least \<^verbatim>\<open>int\<close>.
\<close>

theorem Decrement_is_Increment_of_negation:
  "(v \<noteq> MinInt \<longrightarrow>
      GormRepository_Decrement arith rej t ident field v =
        GormRepository_Increment arith rej t ident field (- v)) \<and>
   MongoRepository_Decrement arith new rejm c mident field v =
     MongoRepository_Increment arith new rejm c mident field (- v) \<and>
   (\<forall>row y. t ident = Some row \<and>
       rej t ident field = None \<and> rej (t(ident \<mapsto> row(field := y))) ident field = None \<and>
       arith (row field) (sint v) = Inr y \<and> arith y (- sint v) = Inr (row field) \<longrightarrow>
       GormRepository_Increment arith rej t ident field v = (None, t(ident \<mapsto> row(field := y))) \<and>
       GormRepository_Decrement arith rej (t(ident \<mapsto> row(field := y))) ident field v = (None, t)) \<and>
   (\<forall>oid doc x y. v \<noteq> MinInt \<and> toObjectID mident = Inr oid \<and> c oid = Some doc \<and> doc field = Some x \<and>
       rejm c oid field = None \<and> rejm (c(oid \<mapsto> doc(field \<mapsto> y))) oid field = None \<and>
       arith x (sint v) = Inr y \<and> arith y (- sint v) = Inr x \<longrightarrow>
       MongoRepository_Increment arith new rejm c mident field v = (None, c(oid \<mapsto> doc(field \<mapsto> y))) \<and>
       MongoRepository_Decrement arith new rejm (c(oid \<mapsto> doc(field \<mapsto> y))) mident field v = (None, c))"
proof (intro conjI allI impI)
  assume "v \<noteq> MinInt"
  then show "GormRepository_Decrement arith rej t ident field v =
             GormRepository_Increment arith rej t ident field (- v)"
    by (rule Gorm_Decrement_is_Increment_neg)
next
  show "MongoRepository_Decrement arith new rejm c mident field v =
        MongoRepository_Increment arith new rejm c mident field (- v)"
    by (simp add: MongoRepository_Decrement_def)
next
  fix row y
  assume a: "t ident = Some row \<and>
       rej t ident field = None \<and> rej (t(ident \<mapsto> row(field := y))) ident field = None \<and>
       arith (row field) (sint v) = Inr y \<and> arith y (- sint v) = Inr (row field)"
  have "GormRepository_Increment arith rej t ident field v = (None, t(ident \<mapsto> row(field := y))) \<and>
        GormRepository_Decrement arith rej (t(ident \<mapsto> row(field := y))) ident field v = (None, t)"
    using a by (intro Gorm_round_trip) simp_all
  then show "GormRepository_Increment arith rej t ident field v = (None, t(ident \<mapsto> row(field := y)))"
    and "GormRepository_Decrement arith rej (t(ident \<mapsto> row(field := y))) ident field v = (None, t)"
    by simp_all
next
  fix oid doc x y
  assume a: "v \<noteq> MinInt \<and> toObjectID mident = Inr oid \<and> c oid = Some doc \<and> doc field = Some x \<and>
       rejm c oid field = None \<and> rejm (c(oid \<mapsto> doc(field \<mapsto> y))) oid field = None \<and>
       arith x (sint v) = Inr y \<and> arith y (- sint v) = Inr x"
  have "MongoRepository_Increment arith new rejm c mident field v = (None, c(oid \<mapsto> doc(field \<mapsto> y))) \<and>
        MongoRepository_Decrement arith new rejm (c(oid \<mapsto> doc(field \<mapsto> y))) mident field v = (None, c)"
    using a by (intro Mongo_round_trip [of v mident oid c doc field x rejm y arith new]) simp_all
  then show "MongoRepository_Increment arith new rejm c mident field v = (None, c(oid \<mapsto> doc(field \<mapsto> y)))"
    and "MongoRepository_Decrement arith new rejm (c(oid \<mapsto> doc(field \<mapsto> y))) mident field v = (None, c)"
    by simp_all
qed

theorem Decrement_is_Increment_of_negation_witness:
  "(10 :: go_int) \<noteq> MinInt \<and>
   GormRepository_Decrement checked_add (\<lambda>t k f. None) one_row 1 ''counter'' 10 =
     GormRepository_Increment checked_add (\<lambda>t k f. None) one_row 1 ''counter'' (- 10) \<and>
   MongoRepository_Decrement checked_add (\<lambda>d. d) (\<lambda>c oid f. None) one_doc
       (BStr ''5f1d7f3e2a4b6c8d9e0f1a2b'') ''counter'' 10 =
     MongoRepository_Increment checked_add (\<lambda>d. d) (\<lambda>c oid f. None) one_doc
       (BStr ''5f1d7f3e2a4b6c8d9e0f1a2b'') ''counter'' (- 10) \<and>
   GormRepository_Increment checked_add (\<lambda>t k f. None) one_row 1 ''counter'' 10 =
     (None, [1 \<mapsto> (\<lambda>column. 0)(''counter'' := 10)]) \<and>
   GormRepository_Decrement checked_add (\<lambda>t k f. None) [1 \<mapsto> (\<lambda>column. 0)(''counter'' := 10)]
       1 ''counter'' 10 = (None, one_row) \<and>
   MongoRepository_Increment checked_add (\<lambda>d. d) (\<lambda>c oid f. None) one_doc
       (BStr ''5f1d7f3e2a4b6c8d9e0f1a2b'') ''counter'' 10 =
     (None, [[95, 29, 127, 62, 42, 75, 108, 141, 158, 15, 26, 43] \<mapsto> [''counter'' \<mapsto> 10]]) \<and>
   MongoRepository_Decrement checked_add (\<lambda>d. d) (\<lambda>c oid f. None)
       [[95, 29, 127, 62, 42, 75, 108, 141, 158, 15, 26, 43] \<mapsto> [''counter'' \<mapsto> 10]]
       (BStr ''5f1d7f3e2a4b6c8d9e0f1a2b'') ''counter'' 10 = (None, one_doc)"
proof -
  let ?rej = "\<lambda>(t :: (nat, string \<Rightarrow> int) table) (k :: nat) (f :: string). None :: store_error option"
  let ?rejm = "\<lambda>(c :: (string \<rightharpoonup> int) collection) (oid :: ObjectID) (f :: string). None :: store_error option"
  let ?id = "BStr ''5f1d7f3e2a4b6c8d9e0f1a2b''"
  let ?oid = "[95, 29, 127, 62, 42, 75, 108, 141, 158, 15, 26, 43] :: ObjectID"
  let ?new = "\<lambda>d :: int. d"
  have ne: "(10 :: go_int) \<noteq> MinInt" by (simp add: MinInt_def)
  note th = Decrement_is_Increment_of_negation
    [of 10 checked_add ?rej one_row 1 "''counter''" ?new ?rejm one_doc ?id]
  have g: "one_row 1 = Some (\<lambda>column. 0) \<and>
      ?rej one_row 1 ''counter'' = None \<and>
      ?rej (one_row(1 \<mapsto> (\<lambda>column. 0)(''counter'' := 10))) 1 ''counter'' = None \<and>
      checked_add ((\<lambda>column. 0) ''counter'') (sint (10 :: go_int)) = Inr 10 \<and>
      checked_add 10 (- sint (10 :: go_int)) = Inr ((\<lambda>column. 0) ''counter'')"
    by (simp add: one_row_def checked_add_def)
  have m: "(10 :: go_int) \<noteq> MinInt \<and> toObjectID ?id = Inr ?oid \<and> one_doc ?oid = Some [''counter'' \<mapsto> 0] \<and>
      [''counter'' \<mapsto> 0 :: int] ''counter'' = Some 0 \<and>
      ?rejm one_doc ?oid ''counter'' = None \<and>
      ?rejm (one_doc(?oid \<mapsto> [''counter'' \<mapsto> 0, ''counter'' \<mapsto> 10])) ?oid ''counter'' = None \<and>
      checked_add 0 (sint (10 :: go_int)) = Inr 10 \<and>
      checked_add 10 (- sint (10 :: go_int)) = Inr 0"
    using ne by (simp add: one_doc_def checked_add_def toObjectID_examples)
  have a: "GormRepository_Decrement checked_add ?rej one_row 1 ''counter'' 10 =
      GormRepository_Increment checked_add ?rej one_row 1 ''counter'' (- 10)"
    using th [THEN conjunct1] ne by (rule mp)
  have gr: "GormRepository_Increment checked_add ?rej one_row 1 ''counter'' 10 =
        (None, one_row(1 \<mapsto> (\<lambda>column. 0)(''counter'' := 10))) \<and>
      GormRepository_Decrement checked_add ?rej (one_row(1 \<mapsto> (\<lambda>column. 0)(''counter'' := 10)))
        1 ''counter'' 10 = (None, one_row)"
    using th [THEN conjunct2, THEN conjunct2, THEN conjunct1, rule_format, of "\<lambda>column. 0" 10] g
    by blast
  have mr: "MongoRepository_Increment checked_add ?new ?rejm one_doc ?id ''counter'' 10 =
        (None, one_doc(?oid \<mapsto> [''counter'' \<mapsto> 0, ''counter'' \<mapsto> 10])) \<and>
      MongoRepository_Decrement checked_add ?new ?rejm
        (one_doc(?oid \<mapsto> [''counter'' \<mapsto> 0, ''counter'' \<mapsto> 10])) ?id ''counter'' 10 = (None, one_doc)"
    using th [THEN conjunct2, THEN conjunct2, THEN conjunct2, rule_format,
        of ?oid "[''counter'' \<mapsto> 0]" 0 10] m
    by blast
  have t1: "one_row(1 \<mapsto> (\<lambda>column. 0)(''counter'' := 10)) = [1 \<mapsto> (\<lambda>column. 0)(''counter'' := 10)]"
    by (simp add: one_row_def)
  have c1: "one_doc(?oid \<mapsto> [''counter'' \<mapsto> 0, ''counter'' \<mapsto> 10]) = [?oid \<mapsto> [''counter'' \<mapsto> 10]]"
    by (simp add: one_doc_def)
  show ?thesis
    using ne a th [THEN conjunct2, THEN conjunct1] gr mr
    unfolding t1 c1 by (intro conjI) simp_all
qed

text \<open>
  Each condition of the statement above is needed. On a checked store with the
  counter at zero and the least \<^verbatim>\<open>int\<close> as delta, the relational \<^verbatim>\<open>Decrement\<close> is
  refused, its sum being out of range, where \<^verbatim>\<open>Increment\<close> of the negation stores
  \<open>- (2 ^ 63)\<close>; and on the document adapter \<^verbatim>\<open>Increment\<close> stores \<open>- (2 ^ 63)\<close> and
  \<^verbatim>\<open>Decrement\<close>, being the same increment again, is refused and leaves it there. On a
  document without the field, \<^verbatim>\<open>Increment\<close> and \<^verbatim>\<open>Decrement\<close> by ten both return
  \<^verbatim>\<open>nil\<close> and leave the field present, at zero. On a checked store with the counter
  six below the greatest 64-bit integer, \<^verbatim>\<open>Increment\<close> by ten is refused and
  \<^verbatim>\<open>Decrement\<close> by ten then leaves the counter sixteen below it. On SQLite with the
  counter at the greatest 64-bit integer, \<^verbatim>\<open>Increment\<close> and \<^verbatim>\<open>Decrement\<close> by one both
  return \<^verbatim>\<open>nil\<close> and leave the counter the \<^verbatim>\<open>REAL\<close> \<open>2 ^ 63\<close>.
\<close>

theorem Decrement_counterexample:
  "GormRepository_Decrement checked_add (\<lambda>t k f. None) one_row 1 ''counter'' MinInt =
     (Some (StoreError (Failure ''bigint out of range'')), one_row) \<and>
   GormRepository_Increment checked_add (\<lambda>t k f. None) one_row 1 ''counter'' (- MinInt) =
     (None, [1 \<mapsto> (\<lambda>column. 0)(''counter'' := - (2 ^ 63))]) \<and>
   MongoRepository_Increment checked_add (\<lambda>d. d) (\<lambda>c oid f. None) one_doc
       (BStr ''5f1d7f3e2a4b6c8d9e0f1a2b'') ''counter'' MinInt =
     (None, [[95, 29, 127, 62, 42, 75, 108, 141, 158, 15, 26, 43] \<mapsto> [''counter'' \<mapsto> - (2 ^ 63)]]) \<and>
   MongoRepository_Decrement checked_add (\<lambda>d. d) (\<lambda>c oid f. None)
       [[95, 29, 127, 62, 42, 75, 108, 141, 158, 15, 26, 43] \<mapsto> [''counter'' \<mapsto> - (2 ^ 63)]]
       (BStr ''5f1d7f3e2a4b6c8d9e0f1a2b'') ''counter'' MinInt =
     (Some (StoreError (Failure ''bigint out of range'')),
      [[95, 29, 127, 62, 42, 75, 108, 141, 158, 15, 26, 43] \<mapsto> [''counter'' \<mapsto> - (2 ^ 63)]]) \<and>
   no_counter [95, 29, 127, 62, 42, 75, 108, 141, 158, 15, 26, 43] = Some [''visits'' \<mapsto> 7] \<and>
   MongoRepository_Increment checked_add (\<lambda>d. d) (\<lambda>c oid f. None) no_counter
       (BStr ''5f1d7f3e2a4b6c8d9e0f1a2b'') ''counter'' 10 =
     (None, [[95, 29, 127, 62, 42, 75, 108, 141, 158, 15, 26, 43] \<mapsto> [''visits'' \<mapsto> 7, ''counter'' \<mapsto> 10]]) \<and>
   MongoRepository_Decrement checked_add (\<lambda>d. d) (\<lambda>c oid f. None)
       [[95, 29, 127, 62, 42, 75, 108, 141, 158, 15, 26, 43] \<mapsto> [''visits'' \<mapsto> 7, ''counter'' \<mapsto> 10]]
       (BStr ''5f1d7f3e2a4b6c8d9e0f1a2b'') ''counter'' 10 =
     (None, [[95, 29, 127, 62, 42, 75, 108, 141, 158, 15, 26, 43] \<mapsto> [''visits'' \<mapsto> 7, ''counter'' \<mapsto> 0]]) \<and>
   GormRepository_Increment checked_add (\<lambda>t k f. None) high_row 1 ''counter'' 10 =
     (Some (StoreError (Failure ''bigint out of range'')), high_row) \<and>
   GormRepository_Decrement checked_add (\<lambda>t k f. None) high_row 1 ''counter'' 10 =
     (None, [1 \<mapsto> (\<lambda>column. 2 ^ 63 - 6)(''counter'' := 2 ^ 63 - 16)]) \<and>
   GormRepository_Increment sqlite_add (\<lambda>t k f. None) full_row 1 ''counter'' 1 =
     (None, [1 \<mapsto> (\<lambda>column. SqlInteger (2 ^ 63 - 1))(''counter'' := SqlReal (2 ^ 63))]) \<and>
   GormRepository_Decrement sqlite_add (\<lambda>t k f. None)
       [1 \<mapsto> (\<lambda>column. SqlInteger (2 ^ 63 - 1))(''counter'' := SqlReal (2 ^ 63))] 1 ''counter'' 1 =
     (None, [1 \<mapsto> (\<lambda>column. SqlInteger (2 ^ 63 - 1))(''counter'' := SqlReal (2 ^ 63))])"
proof -
  note s1 = sqlite_add_examples(1) and s2 = sqlite_add_examples(2)
  show ?thesis
    using s1 s2
    by (simp add: GormRepository_Decrement_def GormRepository_Increment_def gorm_UpdateColumn_def
        expr_delta_def one_row_def full_row_def high_row_def no_counter_def checked_add_def
        MongoRepository_Decrement_def MongoRepository_Increment_def collection_UpdateOne_inc_def
        one_doc_def toObjectID_examples MinInt_def fun_upd_twist)
qed

section \<open>Properties: plucking a column\<close>

lemma only_strings_eq: "only_strings vs = strings_of vs"
  by (induction vs rule: only_strings.induct) (simp_all add: strings_of_def List.map_filter_simps)

lemma only_ints_eq: "only_ints vs = ints_of vs"
  by (induction vs rule: only_ints.induct) (simp_all add: ints_of_def List.map_filter_simps)

lemma strings_of_keeps: "map BStr (strings_of vs) = filter (\<lambda>v. \<exists>s. v = BStr s) vs"
  by (induction vs) (auto simp: strings_of_def List.map_filter_simps split: any.splits)

lemma ints_of_keeps: "map BInt (ints_of vs) = filter (\<lambda>v. \<exists>i. v = BInt i) vs"
  by (induction vs) (auto simp: ints_of_def List.map_filter_simps split: any.splits)

lemma MongoRepository_PluckInt_keeps:
  assumes "MongoRepository_Pluck drv field = Inr vs"
  shows "\<exists>ints. MongoRepository_PluckInt drv field = Inr ints \<and>
                 map BInt ints = filter (\<lambda>v. \<exists>i. v = BInt i) vs"
  using assms ints_of_keeps [of vs] by (simp add: MongoRepository_PluckInt_def only_ints_eq)

text \<open>
  \<^verbatim>\<open>MongoRepository.PluckInt\<close> keeps the values whose dynamic type is \<^verbatim>\<open>int\<close>. The
  driver decodes no stored value into an \<^verbatim>\<open>int\<close>, so on what it fetches the method
  returns nothing, whatever integers the documents hold.
\<close>

lemma PluckInt_driver_values:
  assumes "MongoRepository_Pluck drv field = Inr vs"
    and "\<forall>v \<in> set vs. \<forall>i. v \<noteq> BInt i"
  shows "MongoRepository_PluckInt drv field = Inr []"
proof -
  have "filter (\<lambda>v. \<exists>i. v = BInt i) vs = []"
    using assms(2) by (induction vs) auto
  then show ?thesis
    using MongoRepository_PluckInt_keeps [OF assms(1)] by auto
qed

lemma PluckInt_three_ages:
  "MongoRepository_Pluck (\<lambda>f opts. Inr three_ages) ''age'' = Inr [BInt32 30, BInt64 41, BStr ''n/a'']"
  "MongoRepository_PluckInt (\<lambda>f opts. Inr three_ages) ''age'' = Inr []"
  "MongoRepository_PluckString (\<lambda>f opts. Inr three_ages) ''age'' = Inr [''n/a'']"
  "MongoRepository_PluckString (\<lambda>f opts. Inr three_ages) ''name'' = Inr [''ann'', ''bob'', ''cy'']"
  by (simp_all add: MongoRepository_PluckInt_def MongoRepository_PluckString_def
      MongoRepository_Pluck_def three_ages_def)

text \<open>
  C9. On the document adapter \<^verbatim>\<open>PluckString\<close> returns exactly the plucked values that
  are strings, in order; every other value is dropped without an error, and the only
  error is that of the fetch. On the relational adapter \<^verbatim>\<open>PluckString\<close> and
  \<^verbatim>\<open>PluckInt\<close> return the slice and the error that the ORM's typed \<^verbatim>\<open>Pluck\<close> left,
  with no filtering of their own.
\<close>

theorem Pluck_narrowing:
  "(case MongoRepository_Pluck drv field of
      Inl err \<Rightarrow> MongoRepository_PluckString drv field = Inl err
    | Inr vs \<Rightarrow>
        (\<exists>strs. MongoRepository_PluckString drv field = Inr strs \<and>
                map BStr strs = filter (\<lambda>v. \<exists>s. v = BStr s) vs)) \<and>
   GormRepository_PluckString orm_strings field =
     (fst (orm_strings field), map_option StoreError (snd (orm_strings field))) \<and>
   GormRepository_PluckInt orm_ints field =
     (fst (orm_ints field), map_option StoreError (snd (orm_ints field)))"
proof (intro conjI)
  show "case MongoRepository_Pluck drv field of
      Inl err \<Rightarrow> MongoRepository_PluckString drv field = Inl err
    | Inr vs \<Rightarrow>
        (\<exists>strs. MongoRepository_PluckString drv field = Inr strs \<and>
                map BStr strs = filter (\<lambda>v. \<exists>s. v = BStr s) vs)"
  proof (cases "MongoRepository_Pluck drv field")
    case (Inl err)
    then show ?thesis by (simp add: MongoRepository_PluckString_def)
  next
    case (Inr vs)
    have "MongoRepository_PluckString drv field = Inr (strings_of vs)"
      using Inr by (simp add: MongoRepository_PluckString_def only_strings_eq)
    then show ?thesis
      using Inr strings_of_keeps [of vs] by simp
  qed
  show "GormRepository_PluckString orm_strings field =
     (fst (orm_strings field), map_option StoreError (snd (orm_strings field)))"
    by (simp add: GormRepository_PluckString_def split: prod.splits)
  show "GormRepository_PluckInt orm_ints field =
     (fst (orm_ints field), map_option StoreError (snd (orm_ints field)))"
    by (simp add: GormRepository_PluckInt_def split: prod.splits)
qed

text \<open>
  The ORM's outcome on a column holding \<open>1\<close>, \<open>x\<close> and \<open>3\<close>, scanned into
  \<^verbatim>\<open>[]int\<close>, is a scan error: the relational \<^verbatim>\<open>PluckInt\<close> returns it.
\<close>

theorem GormRepository_PluckInt_counterexample:
  "GormRepository_PluckInt
     (\<lambda>field. ([1, 0, 3], Some (Failure ''sql: Scan error on column index 0: converting x to a int: invalid syntax'')))
     ''age'' =
   ([1, 0, 3], Some (StoreError (Failure ''sql: Scan error on column index 0: converting x to a int: invalid syntax'')))"
  by (simp add: GormRepository_PluckInt_def)

end
